theory Spec2Isabelle
  imports Complex_Main "HOL-Library.AList"
begin

section \<open>Search and summary orchestration of the insights service\<close>

text \<open>
  A shallow embedding of \<^verbatim>\<open>src/services/elastic_service.py\<close> and
  \<^verbatim>\<open>src/services/data_service.py\<close>. A Python \<^verbatim>\<open>str\<close> is a \<open>string\<close>
  whose characters are read as the code points below 256; the character classes below are
  Python's for those code points. A value that may be \<^verbatim>\<open>None\<close> is an \<open>option\<close>.
\<close>

subsection \<open>Text helpers of the Python runtime\<close>

text \<open>\<^verbatim>\<open>str.isspace\<close> on one character: what \<^verbatim>\<open>str.split()\<close> and
  \<^verbatim>\<open>str.strip()\<close> treat as whitespace.\<close>

definition is_space :: "char \<Rightarrow> bool" where
  "is_space c =
     (let n = (of_char c :: nat)
      in (9 \<le> n \<and> n \<le> 13) \<or> (28 \<le> n \<and> n \<le> 32) \<or> n = 133 \<or> n = 160)"

text \<open>The regular-expression class \<^verbatim>\<open>[a-zA-Z0-9_]\<close>.\<close>

definition is_ident_char :: "char \<Rightarrow> bool" where
  "is_ident_char c =
     (let n = (of_char c :: nat)
      in (97 \<le> n \<and> n \<le> 122) \<or> (65 \<le> n \<and> n \<le> 90) \<or> (48 \<le> n \<and> n \<le> 57) \<or> n = 95)"

text \<open>The class \<^verbatim>\<open>\w\<close> of a \<^verbatim>\<open>str\<close> pattern: the underscore and every
  alphanumeric character (letters, digits and numeric characters of Latin-1 included).\<close>

definition is_word_char :: "char \<Rightarrow> bool" where
  "is_word_char c =
     (let n = (of_char c :: nat)
      in is_ident_char c \<or> n = 170 \<or> n = 178 \<or> n = 179 \<or> n = 181 \<or> n = 185 \<or> n = 186
         \<or> n = 188 \<or> n = 189 \<or> n = 190 \<or> (192 \<le> n \<and> n \<le> 214) \<or> (216 \<le> n \<and> n \<le> 246)
         \<or> 248 \<le> n)"

text \<open>\<^verbatim>\<open>str.lower()\<close>, character by character.\<close>

definition lower_char :: "char \<Rightarrow> char" where
  "lower_char c =
     (let n = (of_char c :: nat)
      in if (65 \<le> n \<and> n \<le> 90) \<or> (192 \<le> n \<and> n \<le> 222 \<and> n \<noteq> 215) then char_of (n + 32) else c)"

definition lower :: "string \<Rightarrow> string" where
  "lower s = map lower_char s"

text \<open>\<^verbatim>\<open>str.strip()\<close>: whitespace removed at both ends.\<close>

definition strip :: "string \<Rightarrow> string" where
  "strip s = rev (dropWhile is_space (rev (dropWhile is_space s)))"

text \<open>\<^verbatim>\<open>str.split()\<close> without arguments: the maximal runs of characters that are
  not whitespace, in order. The first argument is the run read so far.\<close>

fun split_run :: "string \<Rightarrow> string \<Rightarrow> string list" where
  "split_run cur [] = (if cur = [] then [] else [cur])"
| "split_run cur (c # cs) =
     (if is_space c then (if cur = [] then split_run [] cs else cur # split_run [] cs)
      else split_run (cur @ [c]) cs)"

definition split :: "string \<Rightarrow> string list" where
  "split s = split_run [] s"

text \<open>\<^verbatim>\<open>word.startswith('#')\<close>.\<close>

definition startswith_hash :: "string \<Rightarrow> bool" where
  "startswith_hash word = (case word of [] \<Rightarrow> False | c # _ \<Rightarrow> c = CHR ''#'')"

text \<open>\<^verbatim>\<open>s.startswith(p)\<close> for a prefix \<open>p\<close>.\<close>

definition startswith :: "string \<Rightarrow> string \<Rightarrow> bool" where
  "startswith s p = (take (length p) s = p)"

text \<open>\<^verbatim>\<open>str(n)\<close> of an integer.\<close>

fun digits :: "nat \<Rightarrow> string" where
  "digits n = (if n < 10 then [char_of (48 + n)] else digits (n div 10) @ [char_of (48 + n mod 10)])"

declare digits.simps [simp del]

definition str_int :: "int \<Rightarrow> string" where
  "str_int i = (if i < 0 then CHR ''-'' # digits (nat (- i)) else digits (nat i))"

subsection \<open>HashtagExtractor\<close>

text \<open>\<^verbatim>\<open>ElasticService.extract_hashtags\<close>:
  \<^verbatim>\<open>
  words = query.split()
  hashtags = [word[1:] for word in words if word.startswith('#')]
  hashtags = [re.sub(r'[^a-zA-Z0-9_]', '', hashtag) for hashtag in hashtags]
  return hashtags
  \<close>\<close>

definition extract_hashtags :: "string \<Rightarrow> string list" where
  "extract_hashtags query =
     (let words = split query;
          hashtags = map tl (filter startswith_hash words)
      in map (filter is_ident_char) hashtags)"

text \<open>The extractor as the specification words it: the kept tokens stripped of every
  character outside the class, and the empty results dropped.\<close>

definition spec_extract_hashtags :: "string \<Rightarrow> string list" where
  "spec_extract_hashtags query =
     filter (\<lambda>h. h \<noteq> []) (map (filter is_ident_char) (filter startswith_hash (split query)))"

subsection \<open>The summary cache document and the reaction state machine\<close>

text \<open>The dictionary built by \<^verbatim>\<open>new_ai_summary_cache_document\<close>, one field per key.
  \<open>topic_vector\<close> is \<open>None\<close> in a document read from the store, which excludes it from
  every read.\<close>

record cache_doc =
  key :: int
  topic :: string
  user_query :: string
  ai_summary_cache :: string
  doc_regions :: "string list option"
  total_likes :: int
  total_dislikes :: int
  liked_by_cdsids :: "string list"
  disliked_by_cdsids :: "string list"
  last_liked_by :: string
  last_disliked_by :: string
  updated_by_cdsid :: "string option"
  updated_datetime_utc :: string
  topic_vector :: "real list option"

datatype error =
    InsightException int string
  | AppException int string
  | AppExceptionStr int error
  | NotFoundError
  | KeyError string
  | IndexError

text \<open>\<open>AppExceptionStr c e\<close> is \<^verbatim>\<open>AppException(c, str(e))\<close> for a caught exception
  \<open>e\<close>. \<^verbatim>\<open>InsightException\<close> is the name under which the services import the
  exception class of \<^verbatim>\<open>src/exceptions/AppException.py\<close>: a status code and a message.\<close>

text \<open>\<^verbatim>\<open>xs[-1] if xs else ""\<close>.\<close>

definition last_or_empty :: "string list \<Rightarrow> string" where
  "last_or_empty xs = (if xs = [] then [] else last xs)"

text \<open>The \<^verbatim>\<open>like\<close> branch of \<^verbatim>\<open>update_summary_cache\<close>, statement by statement;
  both membership tests start with \<^verbatim>\<open>cdsid is not None\<close>.
  \<^verbatim>\<open>list.append\<close> adds at the end and \<^verbatim>\<open>list.remove\<close> deletes the first
  occurrence.\<close>

definition like_document :: "cache_doc \<Rightarrow> string option \<Rightarrow> string \<Rightarrow> cache_doc" where
  "like_document document cdsid logged_in_user_name =
     (let d1 = (case cdsid of
                  None \<Rightarrow> document
                | Some c \<Rightarrow>
                    if c \<notin> set (liked_by_cdsids document)
                    then document\<lparr>total_likes := total_likes document + 1,
                                   liked_by_cdsids := liked_by_cdsids document @ [c]\<rparr>
                    else document);
          d2 = (case cdsid of
                  None \<Rightarrow> d1
                | Some c \<Rightarrow>
                    if c \<in> set (disliked_by_cdsids d1)
                    then d1\<lparr>total_dislikes := total_dislikes d1 - 1,
                             disliked_by_cdsids := remove1 c (disliked_by_cdsids d1)\<rparr>
                    else d1);
          d3 = (if lower (strip logged_in_user_name) = lower (strip (last_disliked_by d2))
                then d2\<lparr>last_disliked_by := last_or_empty (disliked_by_cdsids d2)\<rparr>
                else d2)
      in d3\<lparr>last_liked_by := logged_in_user_name\<rparr>)"

text \<open>The \<^verbatim>\<open>dislike\<close> branch.\<close>

definition dislike_document :: "cache_doc \<Rightarrow> string option \<Rightarrow> string \<Rightarrow> cache_doc" where
  "dislike_document document cdsid logged_in_user_name =
     (let d1 = (case cdsid of
                  None \<Rightarrow> document
                | Some c \<Rightarrow>
                    if c \<notin> set (disliked_by_cdsids document)
                    then document\<lparr>total_dislikes := total_dislikes document + 1,
                                   disliked_by_cdsids := disliked_by_cdsids document @ [c]\<rparr>
                    else document);
          d2 = (case cdsid of
                  None \<Rightarrow> d1
                | Some c \<Rightarrow>
                    if c \<in> set (liked_by_cdsids d1)
                    then d1\<lparr>total_likes := total_likes d1 - 1,
                             liked_by_cdsids := remove1 c (liked_by_cdsids d1)\<rparr>
                    else d1);
          d3 = (if lower (strip logged_in_user_name) = lower (strip (last_liked_by d2))
                then d2\<lparr>last_liked_by := last_or_empty (liked_by_cdsids d2)\<rparr>
                else d2)
      in d3\<lparr>last_disliked_by := logged_in_user_name\<rparr>)"

text \<open>The \<^verbatim>\<open>reload\<close> branch.\<close>

definition reload_document :: "cache_doc \<Rightarrow> cache_doc" where
  "reload_document document =
     document\<lparr>total_likes := 0, total_dislikes := 0, liked_by_cdsids := [],
               disliked_by_cdsids := [], last_liked_by := [], last_disliked_by := []\<rparr>"

text \<open>Lines 205 to 236 of \<^verbatim>\<open>update_summary_cache\<close>: the branch on the reaction's
  name, then the audit stamp. \<open>now\<close> is
  \<^verbatim>\<open>datetime.now(timezone.utc).isoformat()\<close>.\<close>

definition react_document ::
  "cache_doc \<Rightarrow> string \<Rightarrow> string option \<Rightarrow> string \<Rightarrow> string \<Rightarrow> error + cache_doc" where
  "react_document document user_reaction cdsid logged_in_user_name now =
     (case (if user_reaction = ''like'' then Inr (like_document document cdsid logged_in_user_name)
            else if user_reaction = ''dislike''
              then Inr (dislike_document document cdsid logged_in_user_name)
            else if user_reaction = ''reload'' then Inr (reload_document document)
            else Inl (InsightException 400 (''Invalid user reaction '' @ user_reaction @ ''.'')))
      of Inl e \<Rightarrow> Inl e
       | Inr d \<Rightarrow> Inr (d\<lparr>updated_by_cdsid := cdsid, updated_datetime_utc := now\<rparr>))"

text \<open>The membership invariant as the specification words it: no identity is listed in
  both reactor lists.\<close>

definition reactors_exclusive :: "cache_doc \<Rightarrow> bool" where
  "reactors_exclusive d =
     (set (liked_by_cdsids d) \<inter> set (disliked_by_cdsids d) = {})"

text \<open>The invariant the transitions keep: moreover no identity is listed twice in one
  list.\<close>

definition reactors_wf :: "cache_doc \<Rightarrow> bool" where
  "reactors_wf d =
     (distinct (liked_by_cdsids d) \<and> distinct (disliked_by_cdsids d) \<and> reactors_exclusive d)"

subsection \<open>Documents, hits and the document index\<close>

text \<open>An insight document, by the four fields the summariser reads (each may be absent);
  the services read no other field of it.\<close>

record insight =
  title :: "string option"
  description :: "string option"
  insight_authors :: "string list option"
  insight_regions :: "string list option"

text \<open>The \<^verbatim>\<open>_source\<close> of a stored document: an index holds insight documents and
  summary cache documents alike.\<close>

datatype source = InsightSrc insight | CacheSrc cache_doc

text \<open>\<^verbatim>\<open>source.get('regions')\<close>.\<close>

definition source_regions :: "source \<Rightarrow> string list option" where
  "source_regions s = (case s of InsightSrc i \<Rightarrow> insight_regions i | CacheSrc d \<Rightarrow> doc_regions d)"

text \<open>\<^verbatim>\<open>{field: doc[field] for field in fields_to_summarize if field in doc}\<close> with
  the fields \<^verbatim>\<open>title, description, authors, regions\<close>.\<close>

definition filtered_doc :: "source \<Rightarrow> insight" where
  "filtered_doc s =
     (case s of
        InsightSrc i \<Rightarrow> i
      | CacheSrc d \<Rightarrow> \<lparr>title = None, description = None, insight_authors = None,
                       insight_regions = doc_regions d\<rparr>)"

record hit =
  hit_id :: string
  hit_score :: real
  hit_source :: source
  hit_highlight :: "(string \<times> string list) list option"

record search_result =
  r_id :: string
  r_score :: real
  r_source :: source
  r_highlight :: "(string \<times> string list) list option"

record es_response =
  hits :: "hit list"
  total_hits :: int

record search_response =
  results :: "search_result list"
  total_search_count :: int

text \<open>The query language of the index, as far as the services build it. A boolean query
  is its \<^verbatim>\<open>should\<close> list, its \<^verbatim>\<open>must\<close> list and
  \<^verbatim>\<open>minimum_should_match\<close>, each present or not.\<close>

datatype clause =
    MultiMatch string "string list" string int
  | Knn string "real list" int "int option"
  | Terms string "string list"
  | TermStr string string
  | TermBool string bool
  | MatchPhrasePrefix string string
  | BoolQuery "clause list option" "clause list option" "int option"

record es_query =
  q_query :: clause
  q_highlight :: "string list option"
  q_size :: "int option"
  q_from :: "int option"
  q_source_excludes :: "string list"
  q_sort :: "(string \<times> string) list option"

text \<open>The calls made to the collaborators, in order.\<close>

datatype call =
    LlmExtractKeywords string
  | LlmSummarize string "insight list"
  | LlmAnalyse string string
  | EsSearch string es_query

text \<open>The state: every index by name, each an association list from document id to
  source, and the calls made so far.\<close>

record world =
  indices :: "(string \<times> (string \<times> source) list) list"
  calls :: "call list"

text \<open>The collaborators and the environment. The language model's three services and the
  embedding service return what section 6 of the specification gives them;
  \<open>summarize\<close> and \<open>es_search\<close> may raise, which the services handle.
  \<open>time_ms\<close> is \<^verbatim>\<open>int(time.time() * 1000)\<close> and \<open>utc_now\<close> is
  \<^verbatim>\<open>datetime.now(timezone.utc).isoformat()\<close>.\<close>

record env =
  properties_env :: string
  extract_keywords :: "string \<Rightarrow> string option"
  summarize :: "string \<Rightarrow> insight list \<Rightarrow> error + string"
  analyse_user_queries :: "string \<Rightarrow> string \<Rightarrow> string option"
  to_embeddings :: "string \<Rightarrow> real list"
  es_search :: "string \<Rightarrow> (string \<times> source) list \<Rightarrow> es_query \<Rightarrow> error + es_response"
  time_ms :: int
  utc_now :: string

record request =
  rq_index :: string
  rq_cdsid :: string
  rq_ai_summary_cache_id :: "string option"
  rq_regions :: "string list option"
  rq_categories :: "string list"
  rq_authors :: "string list"
  rq_sorted_by :: string
  rq_logged_in_user_name :: string
  rq_query :: string
  rq_page_no :: int
  rq_page_size :: int

record insights_dict =
  insights :: "search_result list"
  total_records :: int

text \<open>The response of a search; \<open>summary = None\<close> is the empty object.\<close>

record response =
  summary :: "source option"
  search_results :: insights_dict

definition index_docs :: "world \<Rightarrow> string \<Rightarrow> (string \<times> source) list" where
  "index_docs w index_name = (case map_of (indices w) index_name of None \<Rightarrow> [] | Some ds \<Rightarrow> ds)"

definition check_index_exists :: "world \<Rightarrow> string \<Rightarrow> bool" where
  "check_index_exists w index_name = (map_of (indices w) index_name \<noteq> None)"

definition raise_error_if_index_not_exists :: "world \<Rightarrow> string \<Rightarrow> error + unit" where
  "raise_error_if_index_not_exists w index_name =
     (if \<not> check_index_exists w index_name
      then Inl (InsightException 404 (''Index '' @ index_name @ '' does not exist.''))
      else Inr ())"

definition create_index_if_not_exists :: "world \<Rightarrow> string \<Rightarrow> world" where
  "create_index_if_not_exists w index_name =
     (if \<not> check_index_exists w index_name
      then w\<lparr>indices := AList.update index_name [] (indices w)\<rparr>
      else w)"

definition get_total_count :: "world \<Rightarrow> string \<Rightarrow> int" where
  "get_total_count w index_name = int (length (index_docs w index_name))"

text \<open>A read excludes \<open>topic_vector\<close>.\<close>

definition exclude_topic_vector :: "source \<Rightarrow> source" where
  "exclude_topic_vector s =
     (case s of InsightSrc i \<Rightarrow> InsightSrc i | CacheSrc d \<Rightarrow> CacheSrc (d\<lparr>topic_vector := None\<rparr>))"

definition get_document_by_id :: "world \<Rightarrow> string \<Rightarrow> string \<Rightarrow> error + source" where
  "get_document_by_id w index_name document_id =
     (case raise_error_if_index_not_exists w index_name of
        Inl e \<Rightarrow> Inl e
      | Inr _ \<Rightarrow>
          (case map_of (index_docs w index_name) document_id of
             None \<Rightarrow> Inl NotFoundError
           | Some s \<Rightarrow> Inr (exclude_topic_vector s)))"

text \<open>\<^verbatim>\<open>async_es.index\<close>: the document stored under the id, replacing any other.\<close>

definition es_index_document :: "world \<Rightarrow> string \<Rightarrow> string \<Rightarrow> source \<Rightarrow> world" where
  "es_index_document w index_name document_id s =
     w\<lparr>indices := AList.update index_name
                    (AList.update document_id s (index_docs w index_name)) (indices w)\<rparr>"

text \<open>\<^verbatim>\<open>async_es.update\<close> with \<^verbatim>\<open>doc_as_upsert\<close>: the fields given
  overwrite the stored ones, a field not given (\<open>topic_vector\<close> of a document that was
  read) keeps its stored value, and a missing document is created. Over a stored insight
  document the result is the given document: the merge of both field sets is outside
  this model, and every caller passes the document it has just read under that id.\<close>

definition es_update_document :: "world \<Rightarrow> string \<Rightarrow> string \<Rightarrow> cache_doc \<Rightarrow> world" where
  "es_update_document w index_name document_id doc =
     (let merged =
            (case map_of (index_docs w index_name) document_id of
               Some (CacheSrc old) \<Rightarrow>
                 doc\<lparr>topic_vector :=
                       (case topic_vector doc of None \<Rightarrow> topic_vector old | Some v \<Rightarrow> Some v)\<rparr>
             | _ \<Rightarrow> doc)
      in es_index_document w index_name document_id (CacheSrc merged))"

text \<open>Lines 237 to 240 of \<^verbatim>\<open>update_summary_cache\<close> after the transition: the
  upsert and the read that is returned.\<close>

definition update_summary_cache ::
  "env \<Rightarrow> world \<Rightarrow> string \<Rightarrow> string \<Rightarrow> cache_doc \<Rightarrow> string \<Rightarrow> string option \<Rightarrow> string
     \<Rightarrow> (error + source) \<times> world" where
  "update_summary_cache e w doc_key index_name document user_reaction cdsid logged_in_user_name =
     (case react_document document user_reaction cdsid logged_in_user_name (utc_now e) of
        Inl err \<Rightarrow> (Inl err, w)
      | Inr d \<Rightarrow>
          (let w' = es_update_document w index_name doc_key d
           in (get_document_by_id w' index_name doc_key, w')))"

text \<open>\<^verbatim>\<open>get_query_vector\<close>: the query without the characters outside
  \<^verbatim>\<open>[a-zA-Z0-9_ ]\<close>, and its embedding. The task type
  \<^verbatim>\<open>EmbeddingsTaskType.SEMANTIC_SIMILARITY\<close> passed to the embedding service is
  declared outside these sources; \<open>to_embeddings\<close> of the environment stands for the
  call made with it.\<close>

definition get_query_vector :: "env \<Rightarrow> string \<Rightarrow> string \<times> real list" where
  "get_query_vector e q =
     (let q' = filter (\<lambda>c. is_ident_char c \<or> c = CHR '' '') q in (q', to_embeddings e q'))"

definition new_ai_summary_cache_document ::
  "env \<Rightarrow> int \<Rightarrow> string \<Rightarrow> string \<Rightarrow> string \<Rightarrow> string option \<Rightarrow> string list option
     \<Rightarrow> cache_doc" where
  "new_ai_summary_cache_document e k tp uq ai_summary cdsid regions =
     (case get_query_vector e tp of
        (tp', tp_vector) \<Rightarrow>
          \<lparr>key = k, topic = tp', user_query = uq, ai_summary_cache = ai_summary,
           doc_regions = regions, total_likes = 0, total_dislikes = 0, liked_by_cdsids = [],
           disliked_by_cdsids = [], last_liked_by = [], last_disliked_by = [],
           updated_by_cdsid = cdsid, updated_datetime_utc = utc_now e,
           topic_vector = Some tp_vector\<rparr>)"

text \<open>\<^verbatim>\<open>not key\<close> for a key that is \<^verbatim>\<open>None\<close> or a string.\<close>

definition falsy :: "string option \<Rightarrow> bool" where
  "falsy k = (case k of None \<Rightarrow> True | Some s \<Rightarrow> s = [])"

text \<open>\<^verbatim>\<open>cache_ai_summaries\<close>. With no key a document is minted under the clock's
  key; with a key the stored document is read (the log line reads its \<^verbatim>\<open>topic\<close>,
  which an insight document lacks), its summary overwritten and the document sent
  through the \<^verbatim>\<open>reload\<close> transition. The result is the read made last.\<close>

definition cache_ai_summaries ::
  "env \<Rightarrow> world \<Rightarrow> string option \<Rightarrow> string \<Rightarrow> string \<Rightarrow> string \<Rightarrow> string \<Rightarrow> string option
     \<Rightarrow> string \<Rightarrow> string list option \<Rightarrow> (error + source) \<times> world" where
  "cache_ai_summaries e w k tp uq ai_summary index_name cdsid logged_in_user_name regions =
     (let w1 = create_index_if_not_exists w index_name;
          minted =
            (let new_key = time_ms e;
                 doc = new_ai_summary_cache_document e new_key tp uq ai_summary cdsid regions;
                 w2 = es_index_document w1 index_name (str_int new_key) (CacheSrc doc)
             in (get_document_by_id w2 index_name (str_int new_key), w2))
      in case k of
           None \<Rightarrow> minted
         | Some ks \<Rightarrow>
             if ks = [] then minted
             else (case get_document_by_id w1 index_name ks of
                     Inl err \<Rightarrow> (Inl err, w1)
                   | Inr (InsightSrc i) \<Rightarrow> (Inl (KeyError ''topic''), w1)
                   | Inr (CacheSrc doc) \<Rightarrow>
                       (case update_summary_cache e w1 ks index_name
                               (doc\<lparr>ai_summary_cache := ai_summary\<rparr>) ''reload'' cdsid
                               logged_in_user_name of
                          (Inl err, w2) \<Rightarrow> (Inl err, w2)
                        | (Inr updated, w2) \<Rightarrow> (get_document_by_id w2 index_name ks, w2))))"

text \<open>The history of one summary cache document. The service holds no cache document
  but one it has minted with \<^verbatim>\<open>new_ai_summary_cache_document\<close> and then sent
  through these steps: a reaction transition of \<^verbatim>\<open>update_summary_cache\<close>, the
  overwrite of the summary text that \<^verbatim>\<open>cache_ai_summaries\<close> makes before the
  reload, and the loss or return of \<open>topic_vector\<close> (a read excludes it, the upsert
  keeps the stored one).\<close>

datatype doc_event =
    Reaction string "string option" string string
  | SummaryOverwritten string
  | VectorSet "real list option"

fun doc_after :: "cache_doc \<Rightarrow> doc_event list \<Rightarrow> error + cache_doc" where
  "doc_after d [] = Inr d"
| "doc_after d (Reaction user_reaction cdsid logged_in_user_name now # evs) =
     (case react_document d user_reaction cdsid logged_in_user_name now of
        Inl err \<Rightarrow> Inl err
      | Inr d' \<Rightarrow> doc_after d' evs)"
| "doc_after d (SummaryOverwritten ai_summary # evs) =
     doc_after (d\<lparr>ai_summary_cache := ai_summary\<rparr>) evs"
| "doc_after d (VectorSet v # evs) = doc_after (d\<lparr>topic_vector := v\<rparr>) evs"

subsection \<open>QueryBuilder\<close>

definition search_fields :: "string list" where
  "search_fields = [''title'', ''description'', ''finding'', ''created_by'', ''authors'',
     ''draft_viewers'', ''file_path'', ''file_link'', ''data_source'']"

definition hash_tag_fields :: "string list" where
  "hash_tag_fields = [''created_by_cdsid'', ''authors_cdsid'', ''draft_viewers_cdsid'',
     ''platform'', ''regions'', ''classifications'', ''confidentiality'']"

text \<open>The truth value of a list that may be \<^verbatim>\<open>None\<close>.\<close>

definition truthy_list :: "string list option \<Rightarrow> bool" where
  "truthy_list xs = (case xs of None \<Rightarrow> False | Some ys \<Rightarrow> ys \<noteq> [])"

definition get_queries_for_hash_tags_search :: "string list \<Rightarrow> string list \<Rightarrow> clause list" where
  "get_queries_for_hash_tags_search hash_tags field_names =
     map (\<lambda>hash_tag. MultiMatch hash_tag field_names ''phrase'' 15) hash_tags"

definition es_hash_tags_query :: "string list \<Rightarrow> string list \<Rightarrow> clause" where
  "es_hash_tags_query hash_tags field_names =
     BoolQuery (Some (get_queries_for_hash_tags_search hash_tags field_names)) None (Some 1)"

definition sorted_by :: "request \<Rightarrow> (string \<times> string) list" where
  "sorted_by rq =
     [(''_score'', ''desc'')]
     @ (if rq_sorted_by rq = ''lastUpdatedAsc'' then [(''updated_datetime'', ''asc'')] else [])
     @ (if rq_sorted_by rq = ''lastUpdatedDesc'' then [(''updated_datetime'', ''desc'')] else [])"

definition es_cosine_filters_query :: "request \<Rightarrow> clause list" where
  "es_cosine_filters_query rq =
     (case rq_regions rq of
        None \<Rightarrow> []
      | Some rs \<Rightarrow> if rs \<noteq> [] then [Terms ''regions'' rs] else [])
     @ (if rq_categories rq \<noteq> [] then [Terms ''classifications'' (rq_categories rq)] else [])
     @ (if rq_authors rq \<noteq> [] then [Terms ''authors_cdsid'' (rq_authors rq)] else [])"

definition es_knn_query ::
  "string list \<Rightarrow> string \<Rightarrow> real list \<Rightarrow> string list \<Rightarrow> string list \<Rightarrow> request \<Rightarrow> clause" where
  "es_knn_query field_names q query_vector hash_tags tag_fields rq =
     (let should = [MultiMatch q field_names ''best_fields'' 10,
                    Knn ''title_vector'' query_vector 5 None,
                    Knn ''description_vector'' query_vector 5 None];
          must = (if truthy_list (rq_regions rq) \<or> rq_categories rq \<noteq> [] \<or> rq_authors rq \<noteq> []
                  then Some (es_cosine_filters_query rq) else None);
          should' = (if hash_tags \<noteq> [] then should @ [es_hash_tags_query hash_tags tag_fields]
                     else should)
      in BoolQuery (Some should') must (Some 1))"

definition es_filter_query :: "string \<Rightarrow> clause" where
  "es_filter_query cdsid =
     BoolQuery
       (Some [TermBool ''is_draft'' False,
              BoolQuery None
                (Some [TermBool ''is_draft'' True,
                       BoolQuery (Some [TermStr ''authors_cdsid'' cdsid,
                                        TermStr ''draft_viewers_cdsid'' cdsid,
                                        TermStr ''created_by_cdsid'' cdsid])
                         None (Some 1)])
                None])
       None (Some 1)"

text \<open>\<^verbatim>\<open>get_es_query\<close>: the window check, then the page check, then the query.
  (\<^verbatim>\<open>filter_by_score_query\<close> is built there and never used.)\<close>

definition get_es_query :: "env \<Rightarrow> request \<Rightarrow> int \<Rightarrow> error + es_query" where
  "get_es_query e rq total_docs =
     (let hash_tags = extract_hashtags (rq_query rq);
          page_number = rq_page_no rq;
          page_size = rq_page_size rq;
          qv = get_query_vector e (rq_query rq);
          max_result_window = 10000;
          from_param = (page_number - 1) * page_size
      in if from_param + page_size > max_result_window
         then Inl (InsightException 400
                (''Requested range exceeds the maximum allowed. ''
                 @ ''Please adjust the page size.''))
         else if from_param \<ge> total_docs
         then Inl (InsightException 404 ''No more documents to fetch'')
         else Inr \<lparr>q_query = BoolQuery None
                      (Some [es_knn_query search_fields (fst qv) (snd qv) hash_tags
                               hash_tag_fields rq,
                             es_filter_query (rq_cdsid rq)])
                      None,
                    q_highlight = Some [''title'', ''description''],
                    q_size = Some (min page_size (total_docs - from_param)),
                    q_from = Some from_param,
                    q_source_excludes = [''title_vector'', ''description_vector''],
                    q_sort = Some (sorted_by rq)\<rparr>)"

definition es_search_query :: "string \<Rightarrow> real list \<Rightarrow> int \<Rightarrow> string list option \<Rightarrow> es_query" where
  "es_search_query q query_vector num_candidates regions =
     \<lparr>q_query = BoolQuery
        (Some [MatchPhrasePrefix ''topic'' q,
               Knn ''topic_vector'' query_vector num_candidates (Some 1)])
        (case regions of
           None \<Rightarrow> None
         | Some rs \<Rightarrow> if rs \<noteq> [] then Some [Terms ''regions'' rs] else None)
        (Some 1),
      q_highlight = None, q_size = None, q_from = None,
      q_source_excludes = [''topic_vector''], q_sort = None\<rparr>"

definition get_ai_summary_cache_query :: "env \<Rightarrow> request \<Rightarrow> es_query" where
  "get_ai_summary_cache_query e rq =
     (let qv = get_query_vector e (rq_query rq)
      in es_search_query (fst qv) (snd qv) 5 (rq_regions rq))"

subsection \<open>Running a search\<close>

text \<open>\<^verbatim>\<open>elastic_search\<close>: the index must exist; an empty index gives the empty
  dictionary (\<open>None\<close>) without building or running a query.\<close>

definition elastic_search :: "env \<Rightarrow> world \<Rightarrow> request \<Rightarrow> (error + es_response option) \<times> world" where
  "elastic_search e w rq =
     (case raise_error_if_index_not_exists w (rq_index rq) of
        Inl err \<Rightarrow> (Inl err, w)
      | Inr _ \<Rightarrow>
          (let total_docs = get_total_count w (rq_index rq)
           in if total_docs > 0
              then (case (if startswith (rq_index rq) ''ai_summary_cache''
                          then Inr (get_ai_summary_cache_query e rq)
                          else get_es_query e rq total_docs) of
                      Inl err \<Rightarrow> (Inl err, w)
                    | Inr q \<Rightarrow>
                        (let w' = w\<lparr>calls := calls w @ [EsSearch (rq_index rq) q]\<rparr>
                         in case es_search e (rq_index rq) (index_docs w (rq_index rq)) q of
                              Inl err \<Rightarrow> (Inl err, w')
                            | Inr res \<Rightarrow> (Inr (Some res), w')))
              else (Inr None, w)))"

definition to_result :: "hit \<Rightarrow> search_result" where
  "to_result h = \<lparr>r_id = hit_id h, r_score = hit_score h, r_source = hit_source h,
                  r_highlight = hit_highlight h\<rparr>"

definition get_documents_from_search_insights ::
  "env \<Rightarrow> world \<Rightarrow> request \<Rightarrow> (error + search_response option) \<times> world" where
  "get_documents_from_search_insights e w rq =
     (case elastic_search e w rq of
        (Inl err, w') \<Rightarrow> (Inl err, w')
      | (Inr None, w') \<Rightarrow> (Inr None, w')
      | (Inr (Some res), w') \<Rightarrow>
          (Inr (Some \<lparr>results = map to_result (hits res),
                      total_search_count = total_hits res\<rparr>), w'))"

subsection \<open>SummaryCacheManager and SearchOrchestrator\<close>

text \<open>\<^verbatim>\<open>get_insights_summary\<close>: the first 10 documents, trimmed; the summary is the
  empty string when the summariser raises.\<close>

definition get_insights_summary ::
  "env \<Rightarrow> world \<Rightarrow> string \<Rightarrow> search_result list \<Rightarrow> string \<times> world" where
  "get_insights_summary e w q found =
     (let documents_to_summarize = map (\<lambda>r. filtered_doc (r_source r)) (take 10 found);
          w' = w\<lparr>calls := calls w @ [LlmSummarize q documents_to_summarize]\<rparr>
      in (case summarize e q documents_to_summarize of Inl err \<Rightarrow> [] | Inr s \<Rightarrow> s, w'))"

definition summarize_and_cache ::
  "env \<Rightarrow> world \<Rightarrow> string \<Rightarrow> search_result list \<Rightarrow> request \<Rightarrow> (error + source) \<times> world" where
  "summarize_and_cache e w original_query found rq =
     (case get_insights_summary e w original_query found of
        (ai_summary, w1) \<Rightarrow>
          cache_ai_summaries e w1 (rq_ai_summary_cache_id rq) (rq_query rq) original_query
            ai_summary (rq_index rq) (Some (rq_cdsid rq)) (rq_logged_in_user_name rq)
            (rq_regions rq))"

text \<open>The pattern \<^verbatim>\<open>\byes\b\<close> under \<^verbatim>\<open>re.IGNORECASE\<close>. A word boundary lies
  between a word character and a character that is none, or an end of the string.\<close>

definition word_boundary :: "char option \<Rightarrow> char option \<Rightarrow> bool" where
  "word_boundary before after =
     ((case before of None \<Rightarrow> False | Some c \<Rightarrow> is_word_char c)
      \<noteq> (case after of None \<Rightarrow> False | Some c \<Rightarrow> is_word_char c))"

fun yes_at :: "char option \<Rightarrow> string \<Rightarrow> bool" where
  "yes_at before (a # b # c # rest) =
     (word_boundary before (Some a)
      \<and> (a = CHR ''y'' \<or> a = CHR ''Y'') \<and> (b = CHR ''e'' \<or> b = CHR ''E'')
      \<and> (c = CHR ''s'' \<or> c = CHR ''S'')
      \<and> word_boundary (Some c) (case rest of [] \<Rightarrow> None | x # _ \<Rightarrow> Some x))"
| "yes_at before _ = False"

fun search_yes :: "char option \<Rightarrow> string \<Rightarrow> bool" where
  "search_yes before [] = False"
| "search_yes before (c # cs) = (yes_at before (c # cs) \<or> search_yes (Some c) cs)"

text \<open>\<^verbatim>\<open>llm_response and bool(re.search(r'\byes\b', str(llm_response).strip(),
  re.IGNORECASE))\<close>.\<close>

definition answers_yes :: "string option \<Rightarrow> bool" where
  "answers_yes llm_response =
     (case llm_response of
        None \<Rightarrow> False
      | Some s \<Rightarrow> s \<noteq> [] \<and> search_yes None (strip s))"

text \<open>The body of the \<^verbatim>\<open>try\<close> block of \<^verbatim>\<open>get_ai_summary_from_cache\<close>.
  \<^verbatim>\<open>response['results'][0]\<close> raises \<^verbatim>\<open>IndexError\<close> on the empty list and
  \<^verbatim>\<open>doc['user_query']\<close> raises \<^verbatim>\<open>KeyError\<close> on an insight document.\<close>

definition cache_lookup ::
  "env \<Rightarrow> world \<Rightarrow> string \<Rightarrow> request \<Rightarrow> search_result list \<Rightarrow> (error + source) \<times> world" where
  "cache_lookup e w original_query rq found =
     (case get_documents_from_search_insights e w rq of
        (Inl err, w1) \<Rightarrow> (Inl err, w1)
      | (Inr None, w1) \<Rightarrow> summarize_and_cache e w1 original_query found rq
      | (Inr (Some resp), w1) \<Rightarrow>
          if total_search_count resp > 0
          then (let candidates =
                      (if rq_regions rq = None \<or> rq_regions rq = Some []
                       then filter (\<lambda>r. source_regions (r_source r) = Some []) (results resp)
                       else results resp)
                in case candidates of
                     [] \<Rightarrow> (Inl IndexError, w1)
                   | result # _ \<Rightarrow>
                       (case r_source result of
                          InsightSrc i \<Rightarrow> (Inl (KeyError ''user_query''), w1)
                        | CacheSrc doc \<Rightarrow>
                            (let w2 = w1\<lparr>calls := calls w1
                                        @ [LlmAnalyse original_query (user_query doc)]\<rparr>
                             in if answers_yes
                                     (analyse_user_queries e original_query (user_query doc))
                                then (Inr (CacheSrc doc), w2)
                                else summarize_and_cache e w2 original_query found rq)))
          else summarize_and_cache e w1 original_query found rq)"

text \<open>\<^verbatim>\<open>get_ai_summary_from_cache\<close>: \<^verbatim>\<open>NotFoundError\<close> of the store falls
  through to regeneration, every other exception of the block becomes
  \<^verbatim>\<open>AppException(500, str(e))\<close>.\<close>

definition get_ai_summary_from_cache ::
  "env \<Rightarrow> world \<Rightarrow> string \<Rightarrow> request \<Rightarrow> search_result list \<Rightarrow> (error + source) \<times> world" where
  "get_ai_summary_from_cache e w original_query rq found =
     (if \<not> check_index_exists w (rq_index rq)
      then summarize_and_cache e w original_query found rq
      else (case cache_lookup e w original_query rq found of
              (Inl NotFoundError, w1) \<Rightarrow> summarize_and_cache e w1 original_query found rq
            | (Inl err, w1) \<Rightarrow> (Inl (AppExceptionStr 500 err), w1)
            | (Inr s, w1) \<Rightarrow> (Inr s, w1)))"

definition no_results_summary :: string where
  "no_results_summary =
     ''I'' @ [CHR 0x27] @ ''m sorry, but there are no search results for your query. ''
     @ ''If you have any other queries or need assistance with different information, ''
     @ ''feel free to ask.''"

text \<open>The request after \<^verbatim>\<open>if keywords_query: _request.query = keywords_query\<close>.\<close>

definition keywords_request :: "env \<Rightarrow> request \<Rightarrow> request" where
  "keywords_request e rq =
     (case extract_keywords e (rq_query rq) of
        None \<Rightarrow> rq
      | Some keywords_query \<Rightarrow>
          if keywords_query \<noteq> [] then rq\<lparr>rq_query := keywords_query\<rparr> else rq)"

text \<open>\<^verbatim>\<open>EsIndexPrefix.ai_summary_cache.name + "_" + properties.env.strip().lower()\<close>.\<close>

definition summary_cache_index :: "env \<Rightarrow> string" where
  "summary_cache_index e = ''ai_summary_cache'' @ ''_'' @ lower (strip (properties_env e))"

text \<open>\<^verbatim>\<open>search_insights_v2\<close>. The response of an empty index is the empty
  dictionary, on which \<^verbatim>\<open>response['results']\<close> raises \<^verbatim>\<open>KeyError\<close>.\<close>

definition search_insights_v2 :: "env \<Rightarrow> world \<Rightarrow> request \<Rightarrow> (error + response) \<times> world" where
  "search_insights_v2 e w rq0 =
     (let original_query = rq_query rq0;
          w0 = w\<lparr>calls := calls w @ [LlmExtractKeywords original_query]\<rparr>;
          rq = keywords_request e rq0
      in case get_documents_from_search_insights e w0 rq of
           (Inl err, w1) \<Rightarrow> (Inl err, w1)
         | (Inr None, w1) \<Rightarrow> (Inl (KeyError ''results''), w1)
         | (Inr (Some resp), w1) \<Rightarrow>
             (let found = filter (\<lambda>r. r_score r \<ge> 14) (results resp);
                  total = total_search_count resp;
                  page_no = rq_page_no rq;
                  payload = \<lparr>insights = found, total_records = total\<rparr>
              in case (if total > 0
                       then (if page_no = 1
                             then (let rq' = rq\<lparr>rq_index := summary_cache_index e\<rparr>
                                   in case (if \<not> falsy (rq_ai_summary_cache_id rq')
                                            then summarize_and_cache e w1 original_query found rq'
                                            else get_ai_summary_from_cache e w1 original_query
                                                   rq' found) of
                                        (Inl err, w2) \<Rightarrow> (Inl err, w2)
                                      | (Inr s, w2) \<Rightarrow> (Inr (Some s), w2))
                             else (Inr None, w1))
                       else (case cache_ai_summaries e w1 (rq_ai_summary_cache_id rq)
                                    (rq_query rq) original_query no_results_summary
                                    (rq_index rq) (Some (rq_cdsid rq))
                                    (rq_logged_in_user_name rq) (rq_regions rq) of
                               (Inl err, w2) \<Rightarrow> (Inl err, w2)
                             | (Inr s, w2) \<Rightarrow> (Inr (Some s), w2))) of
                   (Inl err, w2) \<Rightarrow> (Inl err, w2)
                 | (Inr ai_summary_cache_entry, w2) \<Rightarrow>
                     if page_no = 1
                     then (case ai_summary_cache_entry of
                             None \<Rightarrow> (Inl (KeyError ''summary''), w2)
                           | Some s \<Rightarrow> (Inr \<lparr>summary = Some s, search_results = payload\<rparr>, w2))
                     else (Inr \<lparr>summary = None, search_results = payload\<rparr>, w2)))"

text \<open>A document for the concrete evaluations below, with one reactor in each list.\<close>

definition sample_doc :: cache_doc where
  "sample_doc =
     \<lparr>key = 17, topic = ''blue cruise'', user_query = ''what is blue cruise'',
      ai_summary_cache = ''Blue cruise is a driver assistance feature.'',
      doc_regions = Some [], total_likes = 1, total_dislikes = 1,
      liked_by_cdsids = [''BOB2''], disliked_by_cdsids = [''ANN1''],
      last_liked_by = ''Bob'', last_disliked_by = ''Ann'',
      updated_by_cdsid = Some ''ANN1'', updated_datetime_utc = ''2024-05-01T10:00:00+00:00'',
      topic_vector = None\<rparr>"

text \<open>An environment and a state for the concrete evaluations: the cache index
  \<^verbatim>\<open>ai_summary_cache_dev\<close> holds \<open>sample_doc\<close> under the id \<^verbatim>\<open>17\<close>, and
  the index \<^verbatim>\<open>insights_dev\<close> holds one insight.\<close>

definition sample_env :: env where
  "sample_env =
     \<lparr>properties_env = '' DEV'',
      extract_keywords = (\<lambda>q. Some ''blue cruise''),
      summarize = (\<lambda>q ds. Inr ''Blue cruise in short.''),
      analyse_user_queries = (\<lambda>a b. Some ''no''),
      to_embeddings = (\<lambda>q. [1, 0]),
      es_search = (\<lambda>i ds q. Inr \<lparr>hits = [], total_hits = 0\<rparr>),
      time_ms = 1700,
      utc_now = ''2024-06-01T00:00:00+00:00''\<rparr>"

definition sample_insight :: insight where
  "sample_insight = \<lparr>title = Some ''Blue cruise'', description = Some ''Hands-free driving'',
     insight_authors = Some [''Ann''], insight_regions = Some [''NA'']\<rparr>"

definition sample_world :: world where
  "sample_world =
     \<lparr>indices = [(''insights_dev'', [(''1'', InsightSrc sample_insight)]),
                 (''ai_summary_cache_dev'',
                    [(''17'', CacheSrc (sample_doc\<lparr>topic_vector := Some [1, 0]\<rparr>))])],
      calls = []\<rparr>"

definition sample_request :: request where
  "sample_request =
     \<lparr>rq_index = ''insights_dev'', rq_cdsid = ''CAT3'', rq_ai_summary_cache_id = None,
      rq_regions = Some [], rq_categories = [], rq_authors = [], rq_sorted_by = ''relevance'',
      rq_logged_in_user_name = ''Cat'', rq_query = ''what is blue #cruise'',
      rq_page_no = 1, rq_page_size = 24\<rparr>"

text \<open>An index service for the concrete evaluations: every document of the index is a
  hit, scored by its id, and the total is the number of documents. Reads exclude
  \<open>topic_vector\<close>.\<close>

definition sample_score :: "string \<Rightarrow> real" where
  "sample_score k =
     (case map_of [(''1'', 20), (''2'', 15), (''3'', 14), (''4'', 139 / 10), (''5'', 2)] k of
        None \<Rightarrow> 1
      | Some x \<Rightarrow> x)"

definition all_hits :: "string \<Rightarrow> (string \<times> source) list \<Rightarrow> es_query \<Rightarrow> error + es_response" where
  "all_hits index_name ds q =
     Inr \<lparr>hits = map (\<lambda>(k, s). \<lparr>hit_id = k, hit_score = sample_score k,
                                 hit_source = exclude_topic_vector s, hit_highlight = None\<rparr>) ds,
          total_hits = int (length ds)\<rparr>"

definition search_env :: env where
  "search_env = sample_env\<lparr>es_search := all_hits\<rparr>"

definition search_world :: world where
  "search_world =
     \<lparr>indices = [(''insights_dev'',
                    [(''1'', InsightSrc sample_insight), (''2'', InsightSrc sample_insight),
                     (''3'', InsightSrc sample_insight), (''4'', InsightSrc sample_insight),
                     (''5'', InsightSrc sample_insight)]),
                 (''ai_summary_cache_dev'',
                    [(''17'', CacheSrc (sample_doc\<lparr>topic_vector := Some [1, 0]\<rparr>))])],
      calls = []\<rparr>"

text \<open>What the specification says of the affirmative answer: the text contains the
  standalone word \<^verbatim>\<open>yes\<close> in any letter case, that is, the three letters with no
  word character next to them on either side.\<close>

definition wordish :: "char option \<Rightarrow> bool" where
  "wordish x = (case x of None \<Rightarrow> False | Some c \<Rightarrow> is_word_char c)"

definition spec_standalone_yes :: "string \<Rightarrow> bool" where
  "spec_standalone_yes t =
     (\<exists>pre a b c post. t = pre @ a # b # c # post
        \<and> (a = CHR ''y'' \<or> a = CHR ''Y'') \<and> (b = CHR ''e'' \<or> b = CHR ''E'')
        \<and> (c = CHR ''s'' \<or> c = CHR ''S'')
        \<and> (pre = [] \<or> \<not> is_word_char (last pre))
        \<and> (post = [] \<or> \<not> is_word_char (hd post)))"

definition agreeing_env :: env where
  "agreeing_env = search_env\<lparr>analyse_user_queries := (\<lambda>a b. Some ''Yes.'')\<rparr>"

definition sample_cache_request :: request where
  "sample_cache_request = sample_request\<lparr>rq_index := ''ai_summary_cache_dev''\<rparr>"


definition regional_world :: world where
  "regional_world =
     \<lparr>indices = [(''insights_dev'',
                    [(''1'', InsightSrc sample_insight), (''2'', InsightSrc sample_insight),
                     (''3'', InsightSrc sample_insight), (''4'', InsightSrc sample_insight),
                     (''5'', InsightSrc sample_insight)]),
                 (''ai_summary_cache_dev'',
                    [(''17'', CacheSrc (sample_doc\<lparr>doc_regions := Some [''EU''],
                                         topic_vector := Some [1, 0]\<rparr>))])],
      calls = []\<rparr>"

section \<open>Properties\<close>

subsection \<open>Hashtag extraction\<close>

lemma filter_tl_hash:
  "startswith_hash w \<Longrightarrow> filter is_ident_char (tl w) = filter is_ident_char w"
  by (cases w) (auto simp: startswith_hash_def is_ident_char_def)

lemma map_filter_tl_hash:
  "map (filter is_ident_char) (map tl (filter startswith_hash ws))
     = map (filter is_ident_char) (filter startswith_hash ws)"
  by (induction ws) (simp_all add: filter_tl_hash)

lemma extract_hashtags_tokens:
  "extract_hashtags query = map (filter is_ident_char) (filter startswith_hash (split query))"
  by (simp only: extract_hashtags_def Let_def map_filter_tl_hash)

lemma extract_hashtags_empty: "extract_hashtags [] = []"
  by (simp add: extract_hashtags_def split_def)

lemma extract_hashtags_spec:
  "filter (\<lambda>h. h \<noteq> []) (extract_hashtags query) = spec_extract_hashtags query"
  by (simp only: extract_hashtags_tokens spec_extract_hashtags_def)

lemma extract_hashtags_cruise: "extract_hashtags ''blue #cruise feature'' = [''cruise'']"
  by (simp add: extract_hashtags_def split_def is_space_def startswith_hash_def is_ident_char_def)

text \<open>C5, as stated, fails: the query \<^verbatim>\<open>"#"\<close> yields one empty hashtag, which the
  extractor of the specification drops.\<close>

theorem extract_hashtags_keeps_empty_counterexample:
  "extract_hashtags ''#'' = [''''] \<and> spec_extract_hashtags ''#'' = []"
  by (simp add: extract_hashtags_def spec_extract_hashtags_def split_def is_space_def
      startswith_hash_def is_ident_char_def)

text \<open>C5 (amended). For every query, hashtag extraction splits the text on whitespace,
  keeps the tokens starting with \<^verbatim>\<open>#\<close> and strips every character outside
  \<^verbatim>\<open>[a-zA-Z0-9_]\<close> from each kept token; a token left empty stays in the list as
  an empty string, and dropping those gives the list of the specification. Empty input
  yields the empty list and \<^verbatim>\<open>"blue #cruise feature"\<close> yields exactly
  \<^verbatim>\<open>["cruise"]\<close>.\<close>

theorem extract_hashtags_strips_kept_tokens:
  "extract_hashtags query = map (filter is_ident_char) (filter startswith_hash (split query))
   \<and> filter (\<lambda>h. h \<noteq> []) (extract_hashtags query) = spec_extract_hashtags query
   \<and> extract_hashtags [] = []
   \<and> extract_hashtags ''blue #cruise feature'' = [''cruise'']"
  by (intro conjI)
    (rule extract_hashtags_tokens extract_hashtags_spec extract_hashtags_empty
      extract_hashtags_cruise)+

subsection \<open>The reaction state machine\<close>

lemma like_fields_some:
  "liked_by_cdsids (like_document d (Some c) n) =
     (if c \<in> set (liked_by_cdsids d) then liked_by_cdsids d else liked_by_cdsids d @ [c])"
  "disliked_by_cdsids (like_document d (Some c) n) =
     (if c \<in> set (disliked_by_cdsids d) then remove1 c (disliked_by_cdsids d)
      else disliked_by_cdsids d)"
  "total_likes (like_document d (Some c) n) =
     (if c \<in> set (liked_by_cdsids d) then total_likes d else total_likes d + 1)"
  "total_dislikes (like_document d (Some c) n) =
     (if c \<in> set (disliked_by_cdsids d) then total_dislikes d - 1 else total_dislikes d)"
  by (simp_all add: like_document_def Let_def)

lemma dislike_fields_some:
  "disliked_by_cdsids (dislike_document d (Some c) n) =
     (if c \<in> set (disliked_by_cdsids d) then disliked_by_cdsids d
      else disliked_by_cdsids d @ [c])"
  "liked_by_cdsids (dislike_document d (Some c) n) =
     (if c \<in> set (liked_by_cdsids d) then remove1 c (liked_by_cdsids d) else liked_by_cdsids d)"
  "total_dislikes (dislike_document d (Some c) n) =
     (if c \<in> set (disliked_by_cdsids d) then total_dislikes d else total_dislikes d + 1)"
  "total_likes (dislike_document d (Some c) n) =
     (if c \<in> set (liked_by_cdsids d) then total_likes d - 1 else total_likes d)"
  by (simp_all add: dislike_document_def Let_def)

lemma like_fields_none:
  "liked_by_cdsids (like_document d None n) = liked_by_cdsids d"
  "disliked_by_cdsids (like_document d None n) = disliked_by_cdsids d"
  "total_likes (like_document d None n) = total_likes d"
  "total_dislikes (like_document d None n) = total_dislikes d"
  by (simp_all add: like_document_def Let_def)

lemma dislike_fields_none:
  "liked_by_cdsids (dislike_document d None n) = liked_by_cdsids d"
  "disliked_by_cdsids (dislike_document d None n) = disliked_by_cdsids d"
  "total_likes (dislike_document d None n) = total_likes d"
  "total_dislikes (dislike_document d None n) = total_dislikes d"
  by (simp_all add: dislike_document_def Let_def)

lemma like_wf: "reactors_wf d \<Longrightarrow> reactors_wf (like_document d cdsid n)"
proof (cases cdsid)
  case None
  then show "reactors_wf d \<Longrightarrow> ?thesis"
    by (simp add: reactors_wf_def reactors_exclusive_def like_fields_none)
next
  case (Some c)
  then show "reactors_wf d \<Longrightarrow> ?thesis"
    by (auto simp: reactors_wf_def reactors_exclusive_def like_fields_some)
qed

lemma dislike_wf: "reactors_wf d \<Longrightarrow> reactors_wf (dislike_document d cdsid n)"
proof (cases cdsid)
  case None
  then show "reactors_wf d \<Longrightarrow> ?thesis"
    by (simp add: reactors_wf_def reactors_exclusive_def dislike_fields_none)
next
  case (Some c)
  then show "reactors_wf d \<Longrightarrow> ?thesis"
    by (auto simp: reactors_wf_def reactors_exclusive_def dislike_fields_some)
qed

lemma reload_wf: "reactors_wf (reload_document d)"
  by (simp add: reactors_wf_def reactors_exclusive_def reload_document_def)

lemma stamp_wf:
  "reactors_wf (d\<lparr>updated_by_cdsid := u, updated_datetime_utc := t\<rparr>) = reactors_wf d"
  by (simp add: reactors_wf_def reactors_exclusive_def)

lemma react_cases:
  "react_document d ''like'' c n t =
     Inr ((like_document d c n)\<lparr>updated_by_cdsid := c, updated_datetime_utc := t\<rparr>)"
  "react_document d ''dislike'' c n t =
     Inr ((dislike_document d c n)\<lparr>updated_by_cdsid := c, updated_datetime_utc := t\<rparr>)"
  "react_document d ''reload'' c n t =
     Inr ((reload_document d)\<lparr>updated_by_cdsid := c, updated_datetime_utc := t\<rparr>)"
  by (simp_all add: react_document_def)

lemma react_wf:
  assumes "reactors_wf d" and "react_document d r c n t = Inr d'"
  shows "reactors_wf d'"
  using assms
  by (auto simp: react_document_def stamp_wf like_wf dislike_wf reload_wf split: if_splits)

lemma sample_doc_wf: "reactors_wf sample_doc"
  by (simp add: reactors_wf_def reactors_exclusive_def sample_doc_def)

lemma react_moves_reactor:
  assumes "reactors_wf d"
    and "r = ''like'' \<or> r = ''dislike'' \<or> r = ''reload''"
  shows "\<exists>d'. react_document d r cdsid logged_in_user_name now = Inr d'
      \<and> reactors_wf d' \<and> reactors_exclusive d'
      \<and> (r = ''like'' \<and> cdsid = Some c \<and> c \<in> set (disliked_by_cdsids d) \<longrightarrow>
            c \<notin> set (disliked_by_cdsids d') \<and> total_dislikes d' = total_dislikes d - 1
            \<and> c \<in> set (liked_by_cdsids d') \<and> total_likes d' = total_likes d + 1)
      \<and> (r = ''dislike'' \<and> cdsid = Some c \<and> c \<in> set (liked_by_cdsids d) \<longrightarrow>
            c \<notin> set (liked_by_cdsids d') \<and> total_likes d' = total_likes d - 1
            \<and> c \<in> set (disliked_by_cdsids d') \<and> total_dislikes d' = total_dislikes d + 1)"
proof -
  obtain d' where d': "react_document d r cdsid logged_in_user_name now = Inr d'"
    using assms(2) by (auto simp: react_cases)
  have wf: "reactors_wf d'"
    using react_wf [OF assms(1) d'] .
  have excl: "reactors_exclusive d'"
    using wf by (simp add: reactors_wf_def)
  have dist: "distinct (liked_by_cdsids d)" "distinct (disliked_by_cdsids d)"
    "\<And>x. x \<in> set (liked_by_cdsids d) \<Longrightarrow> x \<notin> set (disliked_by_cdsids d)"
    using assms(1) by (auto simp: reactors_wf_def reactors_exclusive_def)
  have like_part:
    "r = ''like'' \<and> cdsid = Some c \<and> c \<in> set (disliked_by_cdsids d) \<longrightarrow>
       c \<notin> set (disliked_by_cdsids d') \<and> total_dislikes d' = total_dislikes d - 1
       \<and> c \<in> set (liked_by_cdsids d') \<and> total_likes d' = total_likes d + 1"
    using d' dist by (auto simp: react_cases like_fields_some)
  have dislike_part:
    "r = ''dislike'' \<and> cdsid = Some c \<and> c \<in> set (liked_by_cdsids d) \<longrightarrow>
       c \<notin> set (liked_by_cdsids d') \<and> total_likes d' = total_likes d - 1
       \<and> c \<in> set (disliked_by_cdsids d') \<and> total_dislikes d' = total_dislikes d + 1"
    using d' dist by (auto simp: react_cases dislike_fields_some)
  show ?thesis
    using d' wf excl like_part dislike_part by blast
qed

lemma new_document_wf:
  "reactors_wf (new_ai_summary_cache_document e k tp uq ai_summary cdsid regions)"
  by (simp add: new_ai_summary_cache_document_def reactors_wf_def reactors_exclusive_def
      split: prod.split)

lemma overwrite_wf:
  "reactors_wf (d\<lparr>ai_summary_cache := s\<rparr>) = reactors_wf d"
  "reactors_wf (d\<lparr>topic_vector := v\<rparr>) = reactors_wf d"
  by (simp_all add: reactors_wf_def reactors_exclusive_def)

lemma doc_after_wf:
  "reactors_wf d \<Longrightarrow> doc_after d evs = Inr d' \<Longrightarrow> reactors_wf d'"
proof (induction d evs rule: doc_after.induct)
  case (1 d)
  then show ?case by simp
next
  case (2 d user_reaction cdsid logged_in_user_name now evs)
  from "2.prems"(2) obtain d1 where
    d1: "react_document d user_reaction cdsid logged_in_user_name now = Inr d1"
    and rest: "doc_after d1 evs = Inr d'"
    by (auto split: sum.splits)
  have "reactors_wf d1"
    using react_wf [OF "2.prems"(1) d1] .
  then show ?case
    using "2.IH" [OF d1 _ rest] by simp
next
  case (3 d ai_summary evs)
  then show ?case by (simp add: overwrite_wf)
next
  case (4 d v evs)
  then show ?case by (simp add: overwrite_wf)
qed

text \<open>C6. Every summary-cache document the service holds (minted, then sent through any
  history of reactions, summary overwrites and reads) lists each reactor identity in at
  most one of \<open>liked_by_cdsids\<close> and \<open>disliked_by_cdsids\<close>, and every reaction
  transition (like, dislike, reload) returns a document that does so too; a like by a
  reactor currently in \<open>disliked_by_cdsids\<close> removes them from it and decrements
  \<open>total_dislikes\<close> while adding them to \<open>liked_by_cdsids\<close> and incrementing
  \<open>total_likes\<close> in the same transition, and dislike is the mirror image. The
  transitions also keep each list free of repetitions, on which the removal relies.\<close>

theorem reaction_keeps_reactors_exclusive:
  assumes "doc_after (new_ai_summary_cache_document e k tp uq ai_summary cdsid0 regions) evs
             = Inr d"
    and "r = ''like'' \<or> r = ''dislike'' \<or> r = ''reload''"
  shows "reactors_exclusive d
      \<and> (\<exists>d'. react_document d r cdsid logged_in_user_name now = Inr d'
          \<and> reactors_exclusive d'
          \<and> distinct (liked_by_cdsids d') \<and> distinct (disliked_by_cdsids d')
          \<and> (r = ''like'' \<and> cdsid = Some c \<and> c \<in> set (disliked_by_cdsids d) \<longrightarrow>
                c \<notin> set (disliked_by_cdsids d') \<and> total_dislikes d' = total_dislikes d - 1
                \<and> c \<in> set (liked_by_cdsids d') \<and> total_likes d' = total_likes d + 1)
          \<and> (r = ''dislike'' \<and> cdsid = Some c \<and> c \<in> set (liked_by_cdsids d) \<longrightarrow>
                c \<notin> set (liked_by_cdsids d') \<and> total_likes d' = total_likes d - 1
                \<and> c \<in> set (disliked_by_cdsids d') \<and> total_dislikes d' = total_dislikes d + 1))"
proof -
  have wf: "reactors_wf d"
    using doc_after_wf [OF new_document_wf assms(1)] .
  then have excl: "reactors_exclusive d"
    by (simp add: reactors_wf_def)
  from react_moves_reactor [OF wf assms(2), of cdsid logged_in_user_name now c]
  obtain d' where
    "react_document d r cdsid logged_in_user_name now = Inr d'"
    "reactors_wf d'" "reactors_exclusive d'"
    "r = ''like'' \<and> cdsid = Some c \<and> c \<in> set (disliked_by_cdsids d) \<longrightarrow>
       c \<notin> set (disliked_by_cdsids d') \<and> total_dislikes d' = total_dislikes d - 1
       \<and> c \<in> set (liked_by_cdsids d') \<and> total_likes d' = total_likes d + 1"
    "r = ''dislike'' \<and> cdsid = Some c \<and> c \<in> set (liked_by_cdsids d) \<longrightarrow>
       c \<notin> set (liked_by_cdsids d') \<and> total_likes d' = total_likes d - 1
       \<and> c \<in> set (disliked_by_cdsids d') \<and> total_dislikes d' = total_dislikes d + 1"
    by blast
  then show ?thesis
    using excl by (auto simp: reactors_wf_def)
qed

theorem reaction_keeps_reactors_exclusive_witness:
  "\<exists>d. doc_after
         (new_ai_summary_cache_document sample_env 17 ''blue cruise'' ''what is blue cruise''
            ''Blue cruise in short.'' (Some ''BOB2'') (Some []))
         [Reaction ''like'' (Some ''BOB2'') ''Bob'' ''t0'',
          Reaction ''dislike'' (Some ''ANN1'') ''Ann'' ''t1''] = Inr d
      \<and> liked_by_cdsids d = [''BOB2''] \<and> disliked_by_cdsids d = [''ANN1'']
      \<and> total_likes d = 1 \<and> total_dislikes d = 1
      \<and> reactors_exclusive d
      \<and> (\<exists>d'. react_document d ''like'' (Some ''ANN1'') ''Ann'' ''t2'' = Inr d'
            \<and> reactors_exclusive d'
            \<and> distinct (liked_by_cdsids d') \<and> distinct (disliked_by_cdsids d')
            \<and> ''ANN1'' \<notin> set (disliked_by_cdsids d') \<and> total_dislikes d' = 0
            \<and> ''ANN1'' \<in> set (liked_by_cdsids d') \<and> total_likes d' = 2)"
proof -
  define d0 where "d0 = new_ai_summary_cache_document sample_env 17 ''blue cruise''
      ''what is blue cruise'' ''Blue cruise in short.'' (Some ''BOB2'') (Some [])"
  define d1 where "d1 = (like_document d0 (Some ''BOB2'') ''Bob'')
      \<lparr>updated_by_cdsid := Some ''BOB2'', updated_datetime_utc := ''t0''\<rparr>"
  define d where "d = (dislike_document d1 (Some ''ANN1'') ''Ann'')
      \<lparr>updated_by_cdsid := Some ''ANN1'', updated_datetime_utc := ''t1''\<rparr>"
  have run: "doc_after d0 [Reaction ''like'' (Some ''BOB2'') ''Bob'' ''t0'',
          Reaction ''dislike'' (Some ''ANN1'') ''Ann'' ''t1''] = Inr d"
    by (simp add: react_cases d1_def d_def)
  have v0: "liked_by_cdsids d0 = []" "disliked_by_cdsids d0 = []"
    "total_likes d0 = 0" "total_dislikes d0 = 0"
    by (simp_all add: d0_def new_ai_summary_cache_document_def split: prod.split)
  have v1: "liked_by_cdsids d1 = [''BOB2'']" "disliked_by_cdsids d1 = []"
    "total_likes d1 = 1" "total_dislikes d1 = 0"
    by (simp_all add: d1_def like_fields_some v0)
  have v: "liked_by_cdsids d = [''BOB2'']" "disliked_by_cdsids d = [''ANN1'']"
    "total_likes d = 1" "total_dislikes d = 1"
    by (simp_all add: d_def dislike_fields_some v1)
  have t: "reactors_exclusive d
      \<and> (\<exists>d'. react_document d ''like'' (Some ''ANN1'') ''Ann'' ''t2'' = Inr d'
            \<and> reactors_exclusive d'
            \<and> distinct (liked_by_cdsids d') \<and> distinct (disliked_by_cdsids d')
            \<and> ''ANN1'' \<notin> set (disliked_by_cdsids d') \<and> total_dislikes d' = 0
            \<and> ''ANN1'' \<in> set (liked_by_cdsids d') \<and> total_likes d' = 2)"
    using reaction_keeps_reactors_exclusive
      [OF run [unfolded d0_def], of "''like''" "Some ''ANN1''" "''Ann''" "''t2''" "''ANN1''"] v
    by simp
  note r0 = run [unfolded d0_def]
  show ?thesis
    by (rule exI [of _ d])
      (rule conjI [OF r0 conjI [OF v(1) conjI [OF v(2) conjI [OF v(3) conjI [OF v(4) t]]]]])
qed

text \<open>C7. For every document in which a reactor identity is in neither list, a like by
  that reactor increments \<open>total_likes\<close> by exactly 1 and leaves \<open>total_dislikes\<close>
  unchanged; a second like by the same identity changes neither counter and neither
  list.\<close>

theorem like_by_new_reactor_counts_once:
  assumes "c \<notin> set (liked_by_cdsids d)" and "c \<notin> set (disliked_by_cdsids d)"
  shows "\<exists>d1 d2. react_document d ''like'' (Some c) name1 now1 = Inr d1
      \<and> total_likes d1 = total_likes d + 1 \<and> total_dislikes d1 = total_dislikes d
      \<and> liked_by_cdsids d1 = liked_by_cdsids d @ [c]
      \<and> disliked_by_cdsids d1 = disliked_by_cdsids d
      \<and> react_document d1 ''like'' (Some c) name2 now2 = Inr d2
      \<and> total_likes d2 = total_likes d1 \<and> total_dislikes d2 = total_dislikes d1
      \<and> liked_by_cdsids d2 = liked_by_cdsids d1
      \<and> disliked_by_cdsids d2 = disliked_by_cdsids d1"
  using assms by (simp add: react_cases like_fields_some)

theorem like_by_new_reactor_counts_once_witness:
  "''CAT3'' \<notin> set (liked_by_cdsids sample_doc) \<and> ''CAT3'' \<notin> set (disliked_by_cdsids sample_doc)
   \<and> (\<exists>d1 d2. react_document sample_doc ''like'' (Some ''CAT3'') ''Cat'' ''t1'' = Inr d1
        \<and> total_likes d1 = 2 \<and> total_dislikes d1 = 1
        \<and> liked_by_cdsids d1 = [''BOB2'', ''CAT3''] \<and> disliked_by_cdsids d1 = [''ANN1'']
        \<and> react_document d1 ''like'' (Some ''CAT3'') ''Cat'' ''t2'' = Inr d2
        \<and> total_likes d2 = 2 \<and> total_dislikes d2 = 1
        \<and> liked_by_cdsids d2 = [''BOB2'', ''CAT3''] \<and> disliked_by_cdsids d2 = [''ANN1''])"
proof -
  have a: "''CAT3'' \<notin> set (liked_by_cdsids sample_doc)"
    and b: "''CAT3'' \<notin> set (disliked_by_cdsids sample_doc)"
    by (simp_all add: sample_doc_def)
  have v: "total_likes sample_doc = 1" "total_dislikes sample_doc = 1"
    "liked_by_cdsids sample_doc = [''BOB2'']" "disliked_by_cdsids sample_doc = [''ANN1'']"
    by (simp_all add: sample_doc_def)
  from like_by_new_reactor_counts_once [OF a b, of "''Cat''" "''t1''" "''Cat''" "''t2''"]
  show ?thesis
    using a b v by auto
qed

text \<open>C10. For every like or dislike transition with \<^verbatim>\<open>cdsid is None\<close>, both counters
  and both reactor lists are unchanged: the returned document differs from the given one
  in \<open>last_liked_by\<close>, \<open>last_disliked_by\<close>, \<open>updated_by_cdsid\<close> (set to \<open>None\<close>) and
  \<open>updated_datetime_utc\<close> at most.\<close>

theorem reaction_without_cdsid_frame:
  assumes "r = ''like'' \<or> r = ''dislike''"
  shows "\<exists>d'. react_document d r None logged_in_user_name now = Inr d'
      \<and> total_likes d' = total_likes d \<and> total_dislikes d' = total_dislikes d
      \<and> liked_by_cdsids d' = liked_by_cdsids d
      \<and> disliked_by_cdsids d' = disliked_by_cdsids d
      \<and> updated_by_cdsid d' = None \<and> updated_datetime_utc d' = now
      \<and> d' = d\<lparr>last_liked_by := last_liked_by d', last_disliked_by := last_disliked_by d',
                updated_by_cdsid := None, updated_datetime_utc := now\<rparr>"
  using assms
  by (auto simp: react_cases like_document_def dislike_document_def Let_def)

theorem reaction_without_cdsid_frame_witness:
  "\<exists>d'. react_document sample_doc ''dislike'' None ''Bob'' ''t1'' = Inr d'
      \<and> total_likes d' = 1 \<and> total_dislikes d' = 1
      \<and> liked_by_cdsids d' = [''BOB2''] \<and> disliked_by_cdsids d' = [''ANN1'']
      \<and> updated_by_cdsid d' = None \<and> updated_datetime_utc d' = ''t1''"
proof -
  have v: "total_likes sample_doc = 1" "total_dislikes sample_doc = 1"
    "liked_by_cdsids sample_doc = [''BOB2'']" "disliked_by_cdsids sample_doc = [''ANN1'']"
    by (simp_all add: sample_doc_def)
  from reaction_without_cdsid_frame [of "''dislike''" sample_doc "''Bob''" "''t1''"]
  show ?thesis
    using v by auto
qed

subsection \<open>The document index and the summary cache\<close>

lemma map_of_indices_es_index:
  "map_of (indices (es_index_document w i k s)) i
     = Some (AList.update k s (index_docs w i))"
  by (simp add: es_index_document_def update_conv')

lemma exists_es_index: "check_index_exists (es_index_document w i k s) i"
  by (simp add: check_index_exists_def map_of_indices_es_index)

lemma index_docs_es_index:
  "index_docs (es_index_document w i k s) i = AList.update k s (index_docs w i)"
  by (simp add: index_docs_def map_of_indices_es_index)

lemma get_after_es_index:
  "get_document_by_id (es_index_document w i k s) i k = Inr (exclude_topic_vector s)"
  by (simp add: get_document_by_id_def raise_error_if_index_not_exists_def exists_es_index
      index_docs_es_index update_conv')

lemma create_existing:
  "map_of (indices w) i = Some ds \<Longrightarrow> create_index_if_not_exists w i = w"
  by (simp add: create_index_if_not_exists_def check_index_exists_def)

lemma get_existing:
  "map_of (indices w) i = Some ds \<Longrightarrow> map_of ds k = Some s \<Longrightarrow>
   get_document_by_id w i k = Inr (exclude_topic_vector s)"
  by (simp add: get_document_by_id_def raise_error_if_index_not_exists_def
      check_index_exists_def index_docs_def)

lemma update_summary_cache_reload:
  assumes "map_of (indices w) i = Some ds" and "map_of ds k = Some (CacheSrc old)"
  shows "update_summary_cache e w k i d ''reload'' c n =
     (Inr (CacheSrc ((reload_document d)\<lparr>updated_by_cdsid := c,
              updated_datetime_utc := utc_now e, topic_vector := None\<rparr>)),
      es_index_document w i k
        (CacheSrc ((reload_document d)\<lparr>updated_by_cdsid := c,
              updated_datetime_utc := utc_now e,
              topic_vector :=
                (case topic_vector d of None \<Rightarrow> topic_vector old | Some v \<Rightarrow> Some v)\<rparr>)))"
  using assms
  by (simp add: update_summary_cache_def react_cases es_update_document_def Let_def
      index_docs_def get_after_es_index exclude_topic_vector_def reload_document_def)

lemma cache_ai_summaries_existing:
  assumes "map_of (indices w) i = Some ds" and "map_of ds ks = Some (CacheSrc old)"
    and "ks \<noteq> []"
  shows "cache_ai_summaries e w (Some ks) tp uq ai_summary i cdsid n regions =
     (Inr (CacheSrc ((reload_document (old\<lparr>ai_summary_cache := ai_summary\<rparr>))
              \<lparr>updated_by_cdsid := cdsid, updated_datetime_utc := utc_now e,
               topic_vector := None\<rparr>)),
      es_index_document w i ks
        (CacheSrc ((reload_document (old\<lparr>ai_summary_cache := ai_summary\<rparr>))
              \<lparr>updated_by_cdsid := cdsid, updated_datetime_utc := utc_now e\<rparr>)))"
  using assms
  by (simp add: cache_ai_summaries_def Let_def create_existing get_existing
      exclude_topic_vector_def update_summary_cache_reload get_after_es_index
      reload_document_def)

text \<open>C8. For every prior document the reload transition yields both counters 0, both
  reactor lists empty and both last-actor fields cleared. \<^verbatim>\<open>cache_ai_summaries\<close>
  invoked with the key of a stored cache document overwrites its summary text, sends
  it through that reload transition and the audit stamp, persists it, and returns the
  document as it is read back from the index (a read leaves \<open>topic_vector\<close> out).\<close>

theorem cache_ai_summaries_existing_key_reloads:
  assumes "map_of (indices w) index_name = Some ds"
    and "map_of ds ks = Some (CacheSrc old)"
    and "ks \<noteq> []"
  shows "total_likes (reload_document d) = 0 \<and> total_dislikes (reload_document d) = 0
    \<and> liked_by_cdsids (reload_document d) = [] \<and> disliked_by_cdsids (reload_document d) = []
    \<and> last_liked_by (reload_document d) = [] \<and> last_disliked_by (reload_document d) = []
    \<and> react_document d ''reload'' c n t
        = Inr ((reload_document d)\<lparr>updated_by_cdsid := c, updated_datetime_utc := t\<rparr>)
    \<and> (\<exists>w' stored.
          cache_ai_summaries e w (Some ks) tp uq ai_summary index_name cdsid name regions
            = (Inr (CacheSrc (stored\<lparr>topic_vector := None\<rparr>)), w')
        \<and> stored = (reload_document (old\<lparr>ai_summary_cache := ai_summary\<rparr>))
                     \<lparr>updated_by_cdsid := cdsid, updated_datetime_utc := utc_now e\<rparr>
        \<and> ai_summary_cache stored = ai_summary
        \<and> map_of (index_docs w' index_name) ks = Some (CacheSrc stored)
        \<and> get_document_by_id w' index_name ks
            = Inr (CacheSrc (stored\<lparr>topic_vector := None\<rparr>)))"
proof -
  have reload: "total_likes (reload_document d) = 0 \<and> total_dislikes (reload_document d) = 0
    \<and> liked_by_cdsids (reload_document d) = [] \<and> disliked_by_cdsids (reload_document d) = []
    \<and> last_liked_by (reload_document d) = [] \<and> last_disliked_by (reload_document d) = []"
    by (simp add: reload_document_def)
  have react: "react_document d ''reload'' c n t
        = Inr ((reload_document d)\<lparr>updated_by_cdsid := c, updated_datetime_utc := t\<rparr>)"
    by (rule react_cases)
  define stored where "stored = (reload_document (old\<lparr>ai_summary_cache := ai_summary\<rparr>))
                     \<lparr>updated_by_cdsid := cdsid, updated_datetime_utc := utc_now e\<rparr>"
  define w' where "w' = es_index_document w index_name ks (CacheSrc stored)"
  have run: "cache_ai_summaries e w (Some ks) tp uq ai_summary index_name cdsid name regions
            = (Inr (CacheSrc (stored\<lparr>topic_vector := None\<rparr>)), w')"
    unfolding stored_def w'_def
    using cache_ai_summaries_existing [OF assms] by simp
  have summ: "ai_summary_cache stored = ai_summary"
    by (simp add: stored_def reload_document_def)
  have kept: "map_of (index_docs w' index_name) ks = Some (CacheSrc stored)"
    by (simp add: w'_def index_docs_es_index update_conv')
  have read: "get_document_by_id w' index_name ks
            = Inr (CacheSrc (stored\<lparr>topic_vector := None\<rparr>))"
    by (simp add: w'_def get_after_es_index exclude_topic_vector_def)
  show ?thesis
    using reload react run summ kept read stored_def by blast
qed

theorem cache_ai_summaries_existing_key_reloads_witness:
  "map_of (indices sample_world) ''ai_summary_cache_dev''
      = Some [(''17'', CacheSrc (sample_doc\<lparr>topic_vector := Some [1, 0]\<rparr>))]
   \<and> map_of [(''17'', CacheSrc (sample_doc\<lparr>topic_vector := Some [1, 0]\<rparr>))] ''17''
      = Some (CacheSrc (sample_doc\<lparr>topic_vector := Some [1, 0]\<rparr>))
   \<and> ''17'' \<noteq> []
   \<and> (\<exists>w' stored.
          cache_ai_summaries sample_env sample_world (Some ''17'') ''blue cruise''
              ''what is blue cruise'' ''A new summary.'' ''ai_summary_cache_dev''
              (Some ''CAT3'') ''Cat'' (Some [])
            = (Inr (CacheSrc (stored\<lparr>topic_vector := None\<rparr>)), w')
        \<and> total_likes stored = 0 \<and> total_dislikes stored = 0
        \<and> liked_by_cdsids stored = [] \<and> disliked_by_cdsids stored = []
        \<and> ai_summary_cache stored = ''A new summary.''
        \<and> updated_by_cdsid stored = Some ''CAT3''
        \<and> map_of (index_docs w' ''ai_summary_cache_dev'') ''17'' = Some (CacheSrc stored))"
proof -
  have a: "map_of (indices sample_world) ''ai_summary_cache_dev''
      = Some [(''17'', CacheSrc (sample_doc\<lparr>topic_vector := Some [1, 0]\<rparr>))]"
    by (simp add: sample_world_def)
  have b: "map_of [(''17'', CacheSrc (sample_doc\<lparr>topic_vector := Some [1, 0]\<rparr>))] ''17''
      = Some (CacheSrc (sample_doc\<lparr>topic_vector := Some [1, 0]\<rparr>))"
    by simp
  have c: "''17'' \<noteq> []"
    by simp
  from cache_ai_summaries_existing_key_reloads [OF a b c,
      of _ _ _ _ sample_env "''blue cruise''" "''what is blue cruise''" "''A new summary.''"
         "Some ''CAT3''" "''Cat''" "Some []"]
  obtain w' stored where
    "cache_ai_summaries sample_env sample_world (Some ''17'') ''blue cruise''
              ''what is blue cruise'' ''A new summary.'' ''ai_summary_cache_dev''
              (Some ''CAT3'') ''Cat'' (Some [])
            = (Inr (CacheSrc (stored\<lparr>topic_vector := None\<rparr>)), w')"
    "stored = (reload_document (sample_doc\<lparr>topic_vector := Some [1, 0],
                   ai_summary_cache := ''A new summary.''\<rparr>))
                 \<lparr>updated_by_cdsid := Some ''CAT3'', updated_datetime_utc := utc_now sample_env\<rparr>"
    "map_of (index_docs w' ''ai_summary_cache_dev'') ''17'' = Some (CacheSrc stored)"
    by blast
  then show ?thesis
    using a b c by (auto simp: reload_document_def)
qed

subsection \<open>Pagination\<close>

text \<open>C3, as stated, fails where both checks apply: page 1000 of size 24 against 10
  documents starts at 23976, beyond the documents, and is refused as a bad request (400),
  not as not found (404), because the window check comes first.\<close>

theorem get_es_query_window_first_counterexample:
  "(1000 - 1) * 24 \<ge> (10::int)
   \<and> get_es_query sample_env (sample_request\<lparr>rq_page_no := 1000, rq_page_size := 24\<rparr>) 10
       = Inl (InsightException 400
           ''Requested range exceeds the maximum allowed. Please adjust the page size.'')"
  by (simp add: get_es_query_def Let_def sample_request_def)

text \<open>C3 (amended). For every search request with page number \<open>p\<close> and page size \<open>s\<close>
  and every document count, with \<open>from = (p - 1) * s\<close>: if \<open>from + s\<close> exceeds 10000
  query construction fails with status 400; otherwise, if \<open>from\<close> is at least the
  document count it fails with status 404; otherwise the query has that \<open>from\<close> and
  the size \<open>min s (total_docs - from)\<close>. A failure of query construction is the result
  of \<^verbatim>\<open>elastic_search\<close> on an existing index with that many documents, with no
  index query made.\<close>

theorem get_es_query_pagination:
  "((rq_page_no rq - 1) * rq_page_size rq + rq_page_size rq > 10000 \<longrightarrow>
      (\<exists>m. get_es_query e rq total_docs = Inl (InsightException 400 m)))
   \<and> ((rq_page_no rq - 1) * rq_page_size rq + rq_page_size rq \<le> 10000
        \<and> (rq_page_no rq - 1) * rq_page_size rq \<ge> total_docs \<longrightarrow>
      get_es_query e rq total_docs = Inl (InsightException 404 ''No more documents to fetch''))
   \<and> ((rq_page_no rq - 1) * rq_page_size rq + rq_page_size rq \<le> 10000
        \<and> (rq_page_no rq - 1) * rq_page_size rq < total_docs \<longrightarrow>
      (\<exists>q. get_es_query e rq total_docs = Inr q
         \<and> q_from q = Some ((rq_page_no rq - 1) * rq_page_size rq)
         \<and> q_size q = Some (min (rq_page_size rq)
                          (total_docs - (rq_page_no rq - 1) * rq_page_size rq))))
   \<and> (check_index_exists w (rq_index rq) \<and> \<not> startswith (rq_index rq) ''ai_summary_cache''
        \<and> get_total_count w (rq_index rq) = total_docs \<and> total_docs > 0
        \<and> get_es_query e rq total_docs = Inl err \<longrightarrow>
      elastic_search e w rq = (Inl err, w))"
proof (intro conjI impI)
  assume "(rq_page_no rq - 1) * rq_page_size rq + rq_page_size rq > 10000"
  then show "\<exists>m. get_es_query e rq total_docs = Inl (InsightException 400 m)"
    by (simp add: get_es_query_def Let_def)
next
  assume "(rq_page_no rq - 1) * rq_page_size rq + rq_page_size rq \<le> 10000
        \<and> (rq_page_no rq - 1) * rq_page_size rq \<ge> total_docs"
  then show "get_es_query e rq total_docs
      = Inl (InsightException 404 ''No more documents to fetch'')"
    by (simp add: get_es_query_def Let_def)
next
  assume "(rq_page_no rq - 1) * rq_page_size rq + rq_page_size rq \<le> 10000
        \<and> (rq_page_no rq - 1) * rq_page_size rq < total_docs"
  then show "\<exists>q. get_es_query e rq total_docs = Inr q
         \<and> q_from q = Some ((rq_page_no rq - 1) * rq_page_size rq)
         \<and> q_size q = Some (min (rq_page_size rq)
                          (total_docs - (rq_page_no rq - 1) * rq_page_size rq))"
    by (simp add: get_es_query_def Let_def)
next
  assume "check_index_exists w (rq_index rq) \<and> \<not> startswith (rq_index rq) ''ai_summary_cache''
        \<and> get_total_count w (rq_index rq) = total_docs \<and> total_docs > 0
        \<and> get_es_query e rq total_docs = Inl err"
  then show "elastic_search e w rq = (Inl err, w)"
    by (simp add: elastic_search_def raise_error_if_index_not_exists_def Let_def)
qed

theorem get_es_query_pagination_witness:
  "(\<exists>q. get_es_query sample_env sample_request 10 = Inr q
       \<and> q_from q = Some 0 \<and> q_size q = Some 10)
   \<and> get_es_query sample_env (sample_request\<lparr>rq_page_no := 2\<rparr>) 10
       = Inl (InsightException 404 ''No more documents to fetch'')
   \<and> (\<exists>m. get_es_query sample_env (sample_request\<lparr>rq_page_no := 1000\<rparr>) 10
         = Inl (InsightException 400 m))
   \<and> elastic_search sample_env sample_world (sample_request\<lparr>rq_page_no := 2\<rparr>)
       = (Inl (InsightException 404 ''No more documents to fetch''), sample_world)"
proof -
  have v: "rq_page_no sample_request = 1" "rq_page_size sample_request = 24"
    "rq_index sample_request = ''insights_dev''"
    by (simp_all add: sample_request_def)
  have w: "check_index_exists sample_world ''insights_dev''"
    "get_total_count sample_world ''insights_dev'' = 1"
    "\<not> startswith ''insights_dev'' ''ai_summary_cache''"
    by (simp_all add: sample_world_def check_index_exists_def get_total_count_def
        index_docs_def startswith_def)
  have p1: "\<exists>q. get_es_query sample_env sample_request 10 = Inr q
       \<and> q_from q = Some 0 \<and> q_size q = Some 10"
    using get_es_query_pagination [of sample_request sample_env 10] v by simp
  have p2: "get_es_query sample_env (sample_request\<lparr>rq_page_no := 2\<rparr>) 10
       = Inl (InsightException 404 ''No more documents to fetch'')"
    using get_es_query_pagination [of "sample_request\<lparr>rq_page_no := 2\<rparr>" sample_env 10] v
    by simp
  have p3: "\<exists>m. get_es_query sample_env (sample_request\<lparr>rq_page_no := 1000\<rparr>) 10
         = Inl (InsightException 400 m)"
    using get_es_query_pagination [of "sample_request\<lparr>rq_page_no := 1000\<rparr>" sample_env 10] v
    by simp
  have p4a: "get_es_query sample_env (sample_request\<lparr>rq_page_no := 2\<rparr>) 1
       = Inl (InsightException 404 ''No more documents to fetch'')"
    using get_es_query_pagination [of "sample_request\<lparr>rq_page_no := 2\<rparr>" sample_env 1] v
    by simp
  have p4: "elastic_search sample_env sample_world (sample_request\<lparr>rq_page_no := 2\<rparr>)
       = (Inl (InsightException 404 ''No more documents to fetch''), sample_world)"
    using get_es_query_pagination [of "sample_request\<lparr>rq_page_no := 2\<rparr>" sample_env 1
        sample_world "InsightException 404 ''No more documents to fetch''"] v w p4a
    by simp
  show ?thesis
    using p1 p2 p3 p4 by blast
qed

subsection \<open>Reuse of a cached summary\<close>

lemma word_yes_chars:
  "is_word_char CHR ''y''" "is_word_char CHR ''Y''"
  "is_word_char CHR ''s''" "is_word_char CHR ''S''"
  by (simp_all add: is_word_char_def is_ident_char_def)

lemma yes_at_iff:
  "yes_at before t =
     (\<exists>a b c post. t = a # b # c # post
        \<and> (a = CHR ''y'' \<or> a = CHR ''Y'') \<and> (b = CHR ''e'' \<or> b = CHR ''E'')
        \<and> (c = CHR ''s'' \<or> c = CHR ''S'')
        \<and> \<not> wordish before
        \<and> (post = [] \<or> \<not> is_word_char (hd post)))"
proof (cases "\<exists>a b c rest. t = a # b # c # rest")
  case True
  then obtain a b c rest where t: "t = a # b # c # rest"
    by blast
  show ?thesis
    using word_yes_chars
    by (cases rest) (auto simp: t word_boundary_def wordish_def)
next
  case False
  then have "\<not> yes_at before t"
    by (cases "(before, t)" rule: yes_at.cases) auto
  then show ?thesis
    using False by auto
qed

lemma search_yes_iff:
  "search_yes before t =
     (\<exists>pre a b c post. t = pre @ a # b # c # post
        \<and> (a = CHR ''y'' \<or> a = CHR ''Y'') \<and> (b = CHR ''e'' \<or> b = CHR ''E'')
        \<and> (c = CHR ''s'' \<or> c = CHR ''S'')
        \<and> \<not> wordish (if pre = [] then before else Some (last pre))
        \<and> (post = [] \<or> \<not> is_word_char (hd post)))"
  (is "_ = ?R before t")
proof (induction t arbitrary: before)
  case Nil
  then show ?case by simp
next
  case (Cons x xs)
  have split_pre: "?R before (x # xs) =
      ((\<exists>a b c post. x # xs = a # b # c # post
          \<and> (a = CHR ''y'' \<or> a = CHR ''Y'') \<and> (b = CHR ''e'' \<or> b = CHR ''E'')
          \<and> (c = CHR ''s'' \<or> c = CHR ''S'')
          \<and> \<not> wordish before
          \<and> (post = [] \<or> \<not> is_word_char (hd post)))
       \<or> ?R (Some x) xs)"
  proof
    assume "?R before (x # xs)"
    then obtain pre a b c post where
      d: "x # xs = pre @ a # b # c # post"
      and y: "(a = CHR ''y'' \<or> a = CHR ''Y'')" "(b = CHR ''e'' \<or> b = CHR ''E'')"
        "(c = CHR ''s'' \<or> c = CHR ''S'')"
      and bd: "\<not> wordish (if pre = [] then before else Some (last pre))"
      and af: "post = [] \<or> \<not> is_word_char (hd post)"
      by blast
    show "(\<exists>a b c post. x # xs = a # b # c # post
          \<and> (a = CHR ''y'' \<or> a = CHR ''Y'') \<and> (b = CHR ''e'' \<or> b = CHR ''E'')
          \<and> (c = CHR ''s'' \<or> c = CHR ''S'')
          \<and> \<not> wordish before
          \<and> (post = [] \<or> \<not> is_word_char (hd post)))
       \<or> ?R (Some x) xs"
    proof (cases pre)
      case Nil
      then show ?thesis using d y bd af by auto
    next
      case (Cons p ps)
      then have xs: "xs = ps @ a # b # c # post" and px: "p = x"
        using d by simp_all
      have "\<not> wordish (if ps = [] then Some x else Some (last ps))"
        using bd Cons px by (auto split: if_splits)
      then have "?R (Some x) xs"
        using xs y af by blast
      then show ?thesis ..
    qed
  next
    assume "(\<exists>a b c post. x # xs = a # b # c # post
          \<and> (a = CHR ''y'' \<or> a = CHR ''Y'') \<and> (b = CHR ''e'' \<or> b = CHR ''E'')
          \<and> (c = CHR ''s'' \<or> c = CHR ''S'')
          \<and> \<not> wordish before
          \<and> (post = [] \<or> \<not> is_word_char (hd post)))
       \<or> ?R (Some x) xs"
    then show "?R before (x # xs)"
    proof
      assume "\<exists>a b c post. x # xs = a # b # c # post
          \<and> (a = CHR ''y'' \<or> a = CHR ''Y'') \<and> (b = CHR ''e'' \<or> b = CHR ''E'')
          \<and> (c = CHR ''s'' \<or> c = CHR ''S'')
          \<and> \<not> wordish before
          \<and> (post = [] \<or> \<not> is_word_char (hd post))"
      then obtain a b c post where
        "x # xs = [] @ a # b # c # post"
        "(a = CHR ''y'' \<or> a = CHR ''Y'')" "(b = CHR ''e'' \<or> b = CHR ''E'')"
        "(c = CHR ''s'' \<or> c = CHR ''S'')"
        "\<not> wordish (if ([]::string) = [] then before else Some (last []))"
        "post = [] \<or> \<not> is_word_char (hd post)"
        by auto
      then show ?thesis by blast
    next
      assume "?R (Some x) xs"
      then obtain pre a b c post where
        d: "xs = pre @ a # b # c # post"
        and y: "(a = CHR ''y'' \<or> a = CHR ''Y'')" "(b = CHR ''e'' \<or> b = CHR ''E'')"
          "(c = CHR ''s'' \<or> c = CHR ''S'')"
        and bd: "\<not> wordish (if pre = [] then Some x else Some (last pre))"
        and af: "post = [] \<or> \<not> is_word_char (hd post)"
        by blast
      have d': "x # xs = (x # pre) @ a # b # c # post"
        using d by simp
      have bd': "\<not> wordish (if x # pre = [] then before else Some (last (x # pre)))"
        using bd by (auto split: if_splits)
      show ?thesis
        using d' y bd' af by blast
    qed
  qed
  show ?case
    by (simp only: search_yes.simps yes_at_iff Cons.IH split_pre)
qed

lemma boundary_at_start:
  "(\<not> wordish (if pre = [] then None else Some (last pre)))
     = (pre = [] \<or> \<not> is_word_char (last pre))"
  by (simp add: wordish_def)

lemma search_yes_spec: "search_yes None t = spec_standalone_yes t"
  by (simp only: search_yes_iff spec_standalone_yes_def boundary_at_start)

lemma calls_es_index: "calls (es_index_document w i k s) = calls w"
  by (simp add: es_index_document_def)

lemma calls_create_index: "calls (create_index_if_not_exists w i) = calls w"
  by (simp add: create_index_if_not_exists_def)

lemma new_document_summary:
  "ai_summary_cache (new_ai_summary_cache_document e k tp uq ai_summary cdsid regions)
     = ai_summary"
  by (simp add: new_ai_summary_cache_document_def split: prod.split)

lemma cache_ai_summaries_mint:
  assumes "falsy k"
  shows "cache_ai_summaries e w k tp uq ai_summary i cdsid n regions =
     (Inr (CacheSrc ((new_ai_summary_cache_document e (time_ms e) tp uq ai_summary cdsid
                        regions)\<lparr>topic_vector := None\<rparr>)),
      es_index_document (create_index_if_not_exists w i) i (str_int (time_ms e))
        (CacheSrc (new_ai_summary_cache_document e (time_ms e) tp uq ai_summary cdsid
                     regions)))"
  using assms
  by (cases k)
    (simp_all add: cache_ai_summaries_def falsy_def Let_def get_after_es_index
      exclude_topic_vector_def)

lemma get_insights_summary_calls:
  "calls (snd (get_insights_summary e w q found))
     = calls w @ [LlmSummarize q (map (\<lambda>r. filtered_doc (r_source r)) (take 10 found))]"
  by (simp add: get_insights_summary_def Let_def)

lemma summarize_and_cache_mint:
  assumes "falsy (rq_ai_summary_cache_id rq)"
  shows "\<exists>w'. summarize_and_cache e w original_query found rq =
       (Inr (CacheSrc ((new_ai_summary_cache_document e (time_ms e) (rq_query rq)
                          original_query (fst (get_insights_summary e w original_query found))
                          (Some (rq_cdsid rq)) (rq_regions rq))\<lparr>topic_vector := None\<rparr>)), w')
     \<and> calls w' = calls w
         @ [LlmSummarize original_query
              (map (\<lambda>r. filtered_doc (r_source r)) (take 10 found))]
     \<and> map_of (index_docs w' (rq_index rq)) (str_int (time_ms e))
         = Some (CacheSrc (new_ai_summary_cache_document e (time_ms e) (rq_query rq)
                          original_query (fst (get_insights_summary e w original_query found))
                          (Some (rq_cdsid rq)) (rq_regions rq)))"
proof -
  obtain s w1 where g: "get_insights_summary e w original_query found = (s, w1)"
    by (cases "get_insights_summary e w original_query found")
  have c: "calls w1 = calls w
         @ [LlmSummarize original_query
              (map (\<lambda>r. filtered_doc (r_source r)) (take 10 found))]"
    using get_insights_summary_calls [of e w original_query found] g by simp
  show ?thesis
    using assms g c
    by (simp add: summarize_and_cache_def cache_ai_summaries_mint calls_es_index
        calls_create_index index_docs_es_index update_conv')
qed

lemma strip_empty: "strip [] = []"
  by (simp add: strip_def)

lemma spec_yes_nonempty: "spec_standalone_yes t \<Longrightarrow> t \<noteq> []"
  by (auto simp: spec_standalone_yes_def)

lemma answers_yes_spec:
  "answers_yes answer = (\<exists>s. answer = Some s \<and> spec_standalone_yes (strip s))"
proof (cases answer)
  case None
  then show ?thesis by (simp add: answers_yes_def)
next
  case (Some s)
  have "spec_standalone_yes (strip s) \<Longrightarrow> s \<noteq> []"
    using spec_yes_nonempty [of "strip s"] strip_empty by auto
  then show ?thesis
    using Some by (auto simp: answers_yes_def search_yes_spec)
qed

lemma answers_yes_samples:
  "\<not> answers_yes None" "\<not> answers_yes (Some '''')" "\<not> answers_yes (Some ''no'')"
  "\<not> answers_yes (Some ''unsure'')" "answers_yes (Some ''Yes.'')"
  by (simp_all add: answers_yes_def strip_def is_space_def word_boundary_def is_word_char_def
      is_ident_char_def)

lemma cache_lookup_candidate:
  assumes "get_documents_from_search_insights e w rq = (Inr (Some resp), w1)"
    and "total_search_count resp > 0"
    and "(if rq_regions rq = None \<or> rq_regions rq = Some []
          then filter (\<lambda>r. source_regions (r_source r) = Some []) (results resp)
          else results resp) = result # rest"
    and "r_source result = CacheSrc doc"
  shows "cache_lookup e w original_query rq found =
      (if answers_yes (analyse_user_queries e original_query (user_query doc))
       then (Inr (CacheSrc doc),
             w1\<lparr>calls := calls w1 @ [LlmAnalyse original_query (user_query doc)]\<rparr>)
       else summarize_and_cache e
              (w1\<lparr>calls := calls w1 @ [LlmAnalyse original_query (user_query doc)]\<rparr>)
              original_query found rq)"
proof -
  show ?thesis
    unfolding cache_lookup_def Let_def
    by (simp only: assms prod.case sum.case option.case if_True list.case source.case)
qed

text \<open>C9. While the cache candidate is evaluated, its summary is reused exactly when the
  answer of the query-equivalence collaborator contains the standalone word
  \<^verbatim>\<open>yes\<close> in any letter case: then the candidate is returned and the summariser is
  not called; otherwise a summary is generated by the summariser and cached. The answers
  \<^verbatim>\<open>no\<close> and \<^verbatim>\<open>unsure\<close>, an empty answer and no answer are of the second
  kind.\<close>

theorem cache_candidate_reused_iff_yes:
  assumes "check_index_exists w (rq_index rq)"
    and "falsy (rq_ai_summary_cache_id rq)"
    and "get_documents_from_search_insights e w rq = (Inr (Some resp), w1)"
    and "total_search_count resp > 0"
    and "(if rq_regions rq = None \<or> rq_regions rq = Some []
          then filter (\<lambda>r. source_regions (r_source r) = Some []) (results resp)
          else results resp) = result # rest"
    and "r_source result = CacheSrc doc"
    and "answer = analyse_user_queries e original_query (user_query doc)"
    and "w2 = w1\<lparr>calls := calls w1 @ [LlmAnalyse original_query (user_query doc)]\<rparr>"
  shows "(answers_yes answer \<longleftrightarrow> (\<exists>s. answer = Some s \<and> spec_standalone_yes (strip s)))
     \<and> (answers_yes answer \<longrightarrow>
          get_ai_summary_from_cache e w original_query rq found = (Inr (CacheSrc doc), w2))
     \<and> (\<not> answers_yes answer \<longrightarrow>
          (\<exists>fresh w3. get_ai_summary_from_cache e w original_query rq found
                        = (Inr (CacheSrc fresh), w3)
             \<and> ai_summary_cache fresh = fst (get_insights_summary e w2 original_query found)
             \<and> calls w3 = calls w2
                 @ [LlmSummarize original_query
                      (map (\<lambda>r. filtered_doc (r_source r)) (take 10 found))]))
     \<and> \<not> answers_yes None \<and> \<not> answers_yes (Some '''') \<and> \<not> answers_yes (Some ''no'')
     \<and> \<not> answers_yes (Some ''unsure'')"
proof -
  have lookup: "cache_lookup e w original_query rq found =
      (if answers_yes answer then (Inr (CacheSrc doc), w2)
       else summarize_and_cache e w2 original_query found rq)"
    using cache_lookup_candidate [OF assms(3) assms(4) assms(5) assms(6)] assms(7) assms(8)
    by simp
  have reuse: "answers_yes answer \<longrightarrow>
      get_ai_summary_from_cache e w original_query rq found = (Inr (CacheSrc doc), w2)"
    using lookup assms(1) by (simp add: get_ai_summary_from_cache_def)
  from summarize_and_cache_mint [OF assms(2), of e w2 original_query found]
  obtain w3 where
    s: "summarize_and_cache e w2 original_query found rq =
       (Inr (CacheSrc ((new_ai_summary_cache_document e (time_ms e) (rq_query rq)
                          original_query (fst (get_insights_summary e w2 original_query found))
                          (Some (rq_cdsid rq)) (rq_regions rq))\<lparr>topic_vector := None\<rparr>)), w3)"
    and c: "calls w3 = calls w2
         @ [LlmSummarize original_query
              (map (\<lambda>r. filtered_doc (r_source r)) (take 10 found))]"
    by blast
  have regenerate: "\<not> answers_yes answer \<longrightarrow>
          (\<exists>fresh w3. get_ai_summary_from_cache e w original_query rq found
                        = (Inr (CacheSrc fresh), w3)
             \<and> ai_summary_cache fresh = fst (get_insights_summary e w2 original_query found)
             \<and> calls w3 = calls w2
                 @ [LlmSummarize original_query
                      (map (\<lambda>r. filtered_doc (r_source r)) (take 10 found))])"
    using lookup assms(1) s c
    by (simp add: get_ai_summary_from_cache_def new_document_summary)
  show ?thesis
    using answers_yes_spec [of answer] reuse regenerate answers_yes_samples(1-4)
    by (intro conjI)
qed

lemma elastic_search_hit:
  assumes "map_of (indices w) (rq_index rq) = Some ds" and "ds \<noteq> []"
    and "(if startswith (rq_index rq) ''ai_summary_cache''
          then Inr (get_ai_summary_cache_query e rq)
          else get_es_query e rq (int (length ds))) = Inr q"
    and "es_search e (rq_index rq) ds q = Inr res"
  shows "elastic_search e w rq
     = (Inr (Some res), w\<lparr>calls := calls w @ [EsSearch (rq_index rq) q]\<rparr>)"
proof -
  have ex: "raise_error_if_index_not_exists w (rq_index rq) = Inr ()"
    using assms(1) by (simp add: raise_error_if_index_not_exists_def check_index_exists_def)
  have docs: "index_docs w (rq_index rq) = ds"
    using assms(1) by (simp add: index_docs_def)
  have cnt: "get_total_count w (rq_index rq) = int (length ds)" "int (length ds) > 0"
    using assms(2) docs by (simp_all add: get_total_count_def)
  show ?thesis
    unfolding elastic_search_def Let_def
    by (simp only: ex docs cnt assms(3) assms(4) sum.case if_True)
qed

lemma get_documents_hit:
  assumes "map_of (indices w) (rq_index rq) = Some ds" and "ds \<noteq> []"
    and "(if startswith (rq_index rq) ''ai_summary_cache''
          then Inr (get_ai_summary_cache_query e rq)
          else get_es_query e rq (int (length ds))) = Inr q"
    and "es_search e (rq_index rq) ds q = Inr res"
  shows "get_documents_from_search_insights e w rq
     = (Inr (Some \<lparr>results = map to_result (hits res),
                    total_search_count = total_hits res\<rparr>),
        w\<lparr>calls := calls w @ [EsSearch (rq_index rq) q]\<rparr>)"
  by (simp add: get_documents_from_search_insights_def elastic_search_hit [OF assms])

lemma search_world_cache_search:
  assumes "es_search e = all_hits"
  shows "get_documents_from_search_insights e search_world sample_cache_request =
     (Inr (Some \<lparr>results = [\<lparr>r_id = ''17'', r_score = 1, r_source = CacheSrc sample_doc,
                              r_highlight = None\<rparr>],
                  total_search_count = 1\<rparr>),
      search_world\<lparr>calls := [EsSearch ''ai_summary_cache_dev''
                                (get_ai_summary_cache_query e sample_cache_request)]\<rparr>)"
proof -
  have i: "rq_index sample_cache_request = ''ai_summary_cache_dev''"
    by (simp add: sample_cache_request_def)
  have m: "map_of (indices search_world) (rq_index sample_cache_request)
      = Some [(''17'', CacheSrc (sample_doc\<lparr>topic_vector := Some [1, 0]\<rparr>))]"
    by (simp add: search_world_def i)
  have q: "(if startswith (rq_index sample_cache_request) ''ai_summary_cache''
          then Inr (get_ai_summary_cache_query e sample_cache_request)
          else get_es_query e sample_cache_request
                 (int (length [(''17'', CacheSrc (sample_doc\<lparr>topic_vector := Some [1, 0]\<rparr>))])))
       = Inr (get_ai_summary_cache_query e sample_cache_request)"
    by (simp add: i startswith_def)
  have h: "es_search e (rq_index sample_cache_request)
         [(''17'', CacheSrc (sample_doc\<lparr>topic_vector := Some [1, 0]\<rparr>))]
         (get_ai_summary_cache_query e sample_cache_request)
       = Inr \<lparr>hits = [\<lparr>hit_id = ''17'', hit_score = 1, hit_source = CacheSrc sample_doc,
                        hit_highlight = None\<rparr>], total_hits = 1\<rparr>"
    by (simp add: assms all_hits_def sample_score_def exclude_topic_vector_def sample_doc_def)
  have c: "calls search_world = []"
    by (simp add: search_world_def)
  show ?thesis
    using get_documents_hit [OF m _ q h] by (simp add: to_result_def i c)
qed

theorem cache_candidate_reused_iff_yes_witness:
  "get_ai_summary_from_cache agreeing_env search_world ''what is blue #cruise''
       sample_cache_request []
     = (Inr (CacheSrc sample_doc),
        search_world\<lparr>calls :=
          [EsSearch ''ai_summary_cache_dev''
             (get_ai_summary_cache_query agreeing_env sample_cache_request),
           LlmAnalyse ''what is blue #cruise'' ''what is blue cruise'']\<rparr>)
   \<and> (\<exists>fresh w3. get_ai_summary_from_cache search_env search_world ''what is blue #cruise''
                     sample_cache_request [] = (Inr (CacheSrc fresh), w3)
        \<and> ai_summary_cache fresh = ''Blue cruise in short.''
        \<and> calls w3 =
            [EsSearch ''ai_summary_cache_dev''
               (get_ai_summary_cache_query search_env sample_cache_request),
             LlmAnalyse ''what is blue #cruise'' ''what is blue cruise'',
             LlmSummarize ''what is blue #cruise'' []])"
proof -
  have a1: "check_index_exists search_world (rq_index sample_cache_request)"
    by (simp add: check_index_exists_def search_world_def sample_cache_request_def)
  have a2: "falsy (rq_ai_summary_cache_id sample_cache_request)"
    by (simp add: falsy_def sample_cache_request_def sample_request_def)
  have e1: "es_search agreeing_env = all_hits" and e2: "es_search search_env = all_hits"
    by (simp_all add: agreeing_env_def search_env_def)
  have a4: "total_search_count
       \<lparr>results = [\<lparr>r_id = ''17'', r_score = 1, r_source = CacheSrc sample_doc,
                     r_highlight = None\<rparr>], total_search_count = 1\<rparr> > 0"
    by simp
  have a5: "(if rq_regions sample_cache_request = None
               \<or> rq_regions sample_cache_request = Some []
          then filter (\<lambda>r. source_regions (r_source r) = Some [])
                 (results \<lparr>results = [\<lparr>r_id = ''17'', r_score = 1,
                              r_source = CacheSrc sample_doc, r_highlight = None\<rparr>],
                            total_search_count = 1\<rparr>)
          else results \<lparr>results = [\<lparr>r_id = ''17'', r_score = 1,
                              r_source = CacheSrc sample_doc, r_highlight = None\<rparr>],
                            total_search_count = 1\<rparr>)
       = \<lparr>r_id = ''17'', r_score = 1, r_source = CacheSrc sample_doc,
          r_highlight = None\<rparr> # []"
    by (simp add: sample_cache_request_def sample_request_def source_regions_def sample_doc_def)
  have a6: "r_source \<lparr>r_id = ''17'', r_score = 1, r_source = CacheSrc sample_doc,
          r_highlight = None\<rparr> = CacheSrc sample_doc"
    by simp
  have uq: "user_query sample_doc = ''what is blue cruise''"
    by (simp add: sample_doc_def)
  have yes: "analyse_user_queries agreeing_env a b = Some ''Yes.''" for a b
    by (simp add: agreeing_env_def)
  have no: "analyse_user_queries search_env a b = Some ''no''" for a b
    by (simp add: search_env_def sample_env_def)
  have c: "calls search_world = []"
    by (simp add: search_world_def)
  have s: "fst (get_insights_summary search_env w ''what is blue #cruise'' [])
       = ''Blue cruise in short.''" for w
    by (simp add: get_insights_summary_def search_env_def sample_env_def)
  note t1 = cache_candidate_reused_iff_yes
    [OF a1 a2 search_world_cache_search [OF e1] a4 a5 a6 refl refl,
      of "''what is blue #cruise''" "[]"]
  note t2 = cache_candidate_reused_iff_yes
    [OF a1 a2 search_world_cache_search [OF e2] a4 a5 a6 refl refl,
      of "''what is blue #cruise''" "[]"]
  have r1: "get_ai_summary_from_cache agreeing_env search_world ''what is blue #cruise''
       sample_cache_request []
     = (Inr (CacheSrc sample_doc),
        search_world\<lparr>calls :=
          [EsSearch ''ai_summary_cache_dev''
             (get_ai_summary_cache_query agreeing_env sample_cache_request),
           LlmAnalyse ''what is blue #cruise'' ''what is blue cruise'']\<rparr>)"
    using t1 by (simp add: yes uq answers_yes_samples(5))
  have r2: "\<exists>fresh w3. get_ai_summary_from_cache search_env search_world ''what is blue #cruise''
                     sample_cache_request [] = (Inr (CacheSrc fresh), w3)
        \<and> ai_summary_cache fresh = ''Blue cruise in short.''
        \<and> calls w3 =
            [EsSearch ''ai_summary_cache_dev''
               (get_ai_summary_cache_query search_env sample_cache_request),
             LlmAnalyse ''what is blue #cruise'' ''what is blue cruise'',
             LlmSummarize ''what is blue #cruise'' []]"
    using t2 by (simp add: no uq answers_yes_samples(3) s)
  show ?thesis
    by (rule conjI [OF r1 r2])
qed

subsection \<open>The search and its summary\<close>

lemma get_es_query_ok:
  assumes "(rq_page_no rq - 1) * rq_page_size rq + rq_page_size rq \<le> 10000"
    and "(rq_page_no rq - 1) * rq_page_size rq < total_docs"
  shows "get_es_query e rq total_docs = Inr (projr (get_es_query e rq total_docs))"
  using assms by (simp add: get_es_query_def Let_def)

lemma get_documents_some:
  assumes "get_documents_from_search_insights e w rq = (Inr (Some resp), w1)"
  shows "\<exists>q res. es_search e (rq_index rq) (index_docs w (rq_index rq)) q = Inr res
     \<and> resp = \<lparr>results = map to_result (hits res), total_search_count = total_hits res\<rparr>
     \<and> w1 = w\<lparr>calls := calls w @ [EsSearch (rq_index rq) q]\<rparr>"
proof -
  obtain x w' where es: "elastic_search e w rq = (x, w')"
    by (cases "elastic_search e w rq")
  from assms es obtain res where x: "x = Inr (Some res)"
    and resp: "resp = \<lparr>results = map to_result (hits res),
                        total_search_count = total_hits res\<rparr>"
    and w1: "w1 = w'"
    by (auto simp: get_documents_from_search_insights_def split: sum.splits option.splits)
  from es x have "\<exists>q. es_search e (rq_index rq) (index_docs w (rq_index rq)) q = Inr res
      \<and> w' = w\<lparr>calls := calls w @ [EsSearch (rq_index rq) q]\<rparr>"
    by (auto simp: elastic_search_def Let_def split: sum.splits if_splits)
  then show ?thesis
    using resp w1 by blast
qed

lemma keywords_request_fields:
  "rq_index (keywords_request e rq) = rq_index rq"
  "rq_page_no (keywords_request e rq) = rq_page_no rq"
  "rq_page_size (keywords_request e rq) = rq_page_size rq"
  "rq_ai_summary_cache_id (keywords_request e rq) = rq_ai_summary_cache_id rq"
  "rq_cdsid (keywords_request e rq) = rq_cdsid rq"
  "rq_logged_in_user_name (keywords_request e rq) = rq_logged_in_user_name rq"
  "rq_regions (keywords_request e rq) = rq_regions rq"
  by (simp_all add: keywords_request_def split: option.split)

lemma search_insights_v2_first_page:
  assumes "get_documents_from_search_insights e
             (w\<lparr>calls := calls w @ [LlmExtractKeywords (rq_query rq)]\<rparr>) (keywords_request e rq)
           = (Inr (Some resp), w1)"
    and "total_search_count resp > 0" and "rq_page_no rq = 1"
    and "falsy (rq_ai_summary_cache_id rq)"
  shows "search_insights_v2 e w rq =
     (case get_ai_summary_from_cache e w1 (rq_query rq)
             ((keywords_request e rq)\<lparr>rq_index := summary_cache_index e\<rparr>)
             (filter (\<lambda>r. r_score r \<ge> 14) (results resp)) of
        (Inl err, w2) \<Rightarrow> (Inl err, w2)
      | (Inr s, w2) \<Rightarrow>
          (Inr \<lparr>summary = Some s,
                search_results = \<lparr>insights = filter (\<lambda>r. r_score r \<ge> 14) (results resp),
                                  total_records = total_search_count resp\<rparr>\<rparr>, w2))"
  using assms
  by (simp add: search_insights_v2_def Let_def keywords_request_fields
      split: prod.split sum.split)


lemma search_insights_v2_payload:
  assumes "search_insights_v2 e w rq = (Inr r, w')"
  shows "\<exists>resp w1. get_documents_from_search_insights e
             (w\<lparr>calls := calls w @ [LlmExtractKeywords (rq_query rq)]\<rparr>) (keywords_request e rq)
           = (Inr (Some resp), w1)
      \<and> search_results r = \<lparr>insights = filter (\<lambda>r. r_score r \<ge> 14) (results resp),
                              total_records = total_search_count resp\<rparr>"
proof -
  obtain x w1 where g: "get_documents_from_search_insights e
             (w\<lparr>calls := calls w @ [LlmExtractKeywords (rq_query rq)]\<rparr>) (keywords_request e rq)
           = (x, w1)"
    by (cases "get_documents_from_search_insights e
             (w\<lparr>calls := calls w @ [LlmExtractKeywords (rq_query rq)]\<rparr>) (keywords_request e rq)")
  show ?thesis
  proof (cases x)
    case (Inl err)
    then show ?thesis
      using assms g by (simp add: search_insights_v2_def Let_def)
  next
    case (Inr o1)
    show ?thesis
    proof (cases o1)
      case None
      then show ?thesis
        using assms g Inr by (simp add: search_insights_v2_def Let_def)
    next
      case (Some resp)
      have "search_results r = \<lparr>insights = filter (\<lambda>r. r_score r \<ge> 14) (results resp),
                              total_records = total_search_count resp\<rparr>"
        using assms g Inr Some
        by (auto simp: search_insights_v2_def Let_def
            split: prod.splits sum.splits option.splits if_splits)
      then show ?thesis
        using g Inr Some by simp
    qed
  qed
qed

lemma index_docs_calls: "index_docs (w\<lparr>calls := cs\<rparr>) i = index_docs w i"
  by (simp add: index_docs_def)

text \<open>C2. In every response of a search, no entry of \<open>insights\<close> scores below 14: the
  list is the hits of the index query, in order, without those below the cutoff; and
  \<open>total_records\<close> is the total the index reported for the query, not the length of
  that list.\<close>

theorem search_results_cut_off:
  assumes "search_insights_v2 e w rq = (Inr r, w')"
  shows "\<exists>q res. es_search e (rq_index rq) (index_docs w (rq_index rq)) q = Inr res
      \<and> insights (search_results r)
          = filter (\<lambda>x. r_score x \<ge> 14) (map to_result (hits res))
      \<and> (\<forall>x \<in> set (insights (search_results r)). r_score x \<ge> 14)
      \<and> total_records (search_results r) = total_hits res"
proof -
  from search_insights_v2_payload [OF assms] obtain resp w1 where
    g: "get_documents_from_search_insights e
             (w\<lparr>calls := calls w @ [LlmExtractKeywords (rq_query rq)]\<rparr>) (keywords_request e rq)
           = (Inr (Some resp), w1)"
    and p: "search_results r = \<lparr>insights = filter (\<lambda>r. r_score r \<ge> 14) (results resp),
                              total_records = total_search_count resp\<rparr>"
    by blast
  from get_documents_some [OF g] obtain q res where
    s: "es_search e (rq_index rq) (index_docs w (rq_index rq)) q = Inr res"
    and resp: "resp = \<lparr>results = map to_result (hits res),
                        total_search_count = total_hits res\<rparr>"
    by (auto simp: keywords_request_fields index_docs_calls)
  have i: "insights (search_results r)
          = filter (\<lambda>x. r_score x \<ge> 14) (map to_result (hits res))"
    and t: "total_records (search_results r) = total_hits res"
    using p resp by simp_all
  have c: "\<forall>x \<in> set (insights (search_results r)). r_score x \<ge> 14"
    by (simp add: i)
  show ?thesis
    using s i c t by blast
qed

lemma all_hits_search:
  assumes "es_search e = all_hits"
    and "map_of (indices w) (rq_index rq) = Some ds" and "ds \<noteq> []"
    and "(if startswith (rq_index rq) ''ai_summary_cache''
          then Inr (get_ai_summary_cache_query e rq)
          else get_es_query e rq (int (length ds))) = Inr q"
  shows "get_documents_from_search_insights e w rq =
     (Inr (Some \<lparr>results = map (\<lambda>(k, s). \<lparr>r_id = k, r_score = sample_score k,
                                            r_source = exclude_topic_vector s,
                                            r_highlight = None\<rparr>) ds,
                  total_search_count = int (length ds)\<rparr>),
      w\<lparr>calls := calls w @ [EsSearch (rq_index rq) q]\<rparr>)"
proof -
  have h: "es_search e (rq_index rq) ds q
      = Inr \<lparr>hits = map (\<lambda>(k, s). \<lparr>hit_id = k, hit_score = sample_score k,
                                 hit_source = exclude_topic_vector s, hit_highlight = None\<rparr>) ds,
          total_hits = int (length ds)\<rparr>"
    by (simp add: assms(1) all_hits_def)
  show ?thesis
    by (simp add: get_documents_hit [OF assms(2) assms(3) assms(4) h] to_result_def
        case_prod_beta comp_def)
qed

lemma sample_keywords:
  "keywords_request search_env sample_request = sample_request\<lparr>rq_query := ''blue cruise''\<rparr>"
  by (simp add: keywords_request_def search_env_def sample_env_def)

lemma sample_cache_index: "summary_cache_index search_env = ''ai_summary_cache_dev''"
  by code_simp

lemma sample_scores:
  "sample_score ''1'' = 20" "sample_score ''2'' = 15" "sample_score ''3'' = 14"
  "sample_score ''4'' = 139 / 10" "sample_score ''5'' = 2" "sample_score ''17'' = 1"
  by (simp_all add: sample_score_def)

lemma cache_candidate_ok:
  assumes "check_index_exists w (rq_index rq)"
    and "falsy (rq_ai_summary_cache_id rq)"
    and "get_documents_from_search_insights e w rq = (Inr (Some resp), w1)"
    and "total_search_count resp > 0"
    and "(if rq_regions rq = None \<or> rq_regions rq = Some []
          then filter (\<lambda>r. source_regions (r_source r) = Some []) (results resp)
          else results resp) = result # rest"
    and "r_source result = CacheSrc doc"
  shows "\<exists>s w3. get_ai_summary_from_cache e w original_query rq found = (Inr s, w3)"
proof -
  note lookup = cache_lookup_candidate [OF assms(3) assms(4) assms(5) assms(6),
      of original_query found]
  from summarize_and_cache_mint [OF assms(2), of e
      "w1\<lparr>calls := calls w1 @ [LlmAnalyse original_query (user_query doc)]\<rparr>"
      original_query found]
  obtain s w3 where "summarize_and_cache e
      (w1\<lparr>calls := calls w1 @ [LlmAnalyse original_query (user_query doc)]\<rparr>)
      original_query found rq = (Inr s, w3)"
    by blast
  then show ?thesis
    using lookup assms(1) by (simp add: get_ai_summary_from_cache_def)
qed

lemma search_world_run:
  "\<exists>r w'. search_insights_v2 search_env search_world sample_request = (Inr r, w')"
proof -
  define w0 where "w0 = search_world\<lparr>calls := calls search_world
      @ [LlmExtractKeywords (rq_query sample_request)]\<rparr>"
  define rq1 where "rq1 = sample_request\<lparr>rq_query := ''blue cruise''\<rparr>"
  define ds where "ds = [(''1'', InsightSrc sample_insight), (''2'', InsightSrc sample_insight),
                     (''3'', InsightSrc sample_insight), (''4'', InsightSrc sample_insight),
                     (''5'', InsightSrc sample_insight)]"
  have e: "es_search search_env = all_hits"
    by (simp add: search_env_def)
  have i1: "rq_index rq1 = ''insights_dev''" "rq_page_no rq1 = 1" "rq_page_size rq1 = 24"
    "rq_regions rq1 = Some []" "rq_ai_summary_cache_id rq1 = None"
    by (simp_all add: rq1_def sample_request_def)
  have m: "map_of (indices w0) (rq_index rq1) = Some ds"
    by (simp add: w0_def search_world_def i1 ds_def)
  have ne: "ds \<noteq> []" and len: "int (length ds) = 5"
    by (simp_all add: ds_def)
  have q: "(if startswith (rq_index rq1) ''ai_summary_cache''
          then Inr (get_ai_summary_cache_query search_env rq1)
          else get_es_query search_env rq1 (int (length ds)))
       = Inr (projr (get_es_query search_env rq1 5))"
    using get_es_query_ok [of rq1 5 search_env] by (simp add: i1 len startswith_def)
  note g = all_hits_search [OF e m ne q]
  define resp where "resp = \<lparr>results = map (\<lambda>(k, s). \<lparr>r_id = k, r_score = sample_score k,
                                            r_source = exclude_topic_vector s,
                                            r_highlight = None\<rparr>) ds,
                  total_search_count = int (length ds)\<rparr>"
  define w1 where "w1 = w0\<lparr>calls := calls w0
      @ [EsSearch (rq_index rq1) (projr (get_es_query search_env rq1 5))]\<rparr>"
  have g': "get_documents_from_search_insights search_env
      (search_world\<lparr>calls := calls search_world @ [LlmExtractKeywords (rq_query sample_request)]\<rparr>)
      (keywords_request search_env sample_request) = (Inr (Some resp), w1)"
    using g by (simp only: sample_keywords w0_def rq1_def resp_def w1_def)
  have tot: "total_search_count resp > 0"
    by (simp add: resp_def len)
  have pg: "rq_page_no sample_request = 1" and fk: "falsy (rq_ai_summary_cache_id sample_request)"
    by (simp_all add: sample_request_def falsy_def)
  note first = search_insights_v2_first_page [OF g' tot pg fk]
  define rq2 where "rq2 = (keywords_request search_env sample_request)
      \<lparr>rq_index := summary_cache_index search_env\<rparr>"
  have i2: "rq_index rq2 = ''ai_summary_cache_dev''" "rq_regions rq2 = Some []"
    "rq_ai_summary_cache_id rq2 = None"
    by (simp_all add: rq2_def sample_cache_index keywords_request_fields sample_request_def)
  have m2: "map_of (indices w1) (rq_index rq2)
      = Some [(''17'', CacheSrc (sample_doc\<lparr>topic_vector := Some [1, 0]\<rparr>))]"
    by (simp add: w1_def w0_def search_world_def i2)
  have q2: "(if startswith (rq_index rq2) ''ai_summary_cache''
          then Inr (get_ai_summary_cache_query search_env rq2)
          else get_es_query search_env rq2
                 (int (length [(''17'', CacheSrc (sample_doc\<lparr>topic_vector := Some [1, 0]\<rparr>))])))
       = Inr (get_ai_summary_cache_query search_env rq2)"
    by (simp add: i2 startswith_def)
  note g2 = all_hits_search [OF e m2 _ q2]
  have a1: "check_index_exists w1 (rq_index rq2)"
    using m2 by (simp add: check_index_exists_def)
  have a2: "falsy (rq_ai_summary_cache_id rq2)"
    by (simp add: i2 falsy_def)
  have g2': "get_documents_from_search_insights search_env w1 rq2 =
     (Inr (Some \<lparr>results = [\<lparr>r_id = ''17'', r_score = 1, r_source = CacheSrc sample_doc,
                              r_highlight = None\<rparr>], total_search_count = 1\<rparr>),
      w1\<lparr>calls := calls w1
          @ [EsSearch (rq_index rq2) (get_ai_summary_cache_query search_env rq2)]\<rparr>)"
    using g2 by (simp add: sample_scores exclude_topic_vector_def sample_doc_def)
  have a5: "(if rq_regions rq2 = None \<or> rq_regions rq2 = Some []
          then filter (\<lambda>r. source_regions (r_source r) = Some [])
                 (results \<lparr>results = [\<lparr>r_id = ''17'', r_score = 1,
                              r_source = CacheSrc sample_doc, r_highlight = None\<rparr>],
                            total_search_count = 1\<rparr>)
          else results \<lparr>results = [\<lparr>r_id = ''17'', r_score = 1,
                              r_source = CacheSrc sample_doc, r_highlight = None\<rparr>],
                            total_search_count = 1\<rparr>)
       = \<lparr>r_id = ''17'', r_score = 1, r_source = CacheSrc sample_doc,
          r_highlight = None\<rparr> # []"
    by (simp add: i2 source_regions_def sample_doc_def)
  from cache_candidate_ok [OF a1 a2 g2' _ a5, of sample_doc "rq_query sample_request"
      "filter (\<lambda>r. r_score r \<ge> 14) (results resp)"]
  obtain s w3 where "get_ai_summary_from_cache search_env w1 (rq_query sample_request) rq2
      (filter (\<lambda>r. r_score r \<ge> 14) (results resp)) = (Inr s, w3)"
    by auto
  then show ?thesis
    using first by (simp add: rq2_def)
qed

theorem search_results_cut_off_witness:
  "\<exists>r w'. search_insights_v2 search_env search_world sample_request = (Inr r, w')
      \<and> map r_id (insights (search_results r)) = [''1'', ''2'', ''3'']
      \<and> map r_score (insights (search_results r)) = [20, 15, 14]
      \<and> total_records (search_results r) = 5"
proof -
  from search_world_run obtain r w' where
    run: "search_insights_v2 search_env search_world sample_request = (Inr r, w')"
    by blast
  have d: "index_docs search_world (rq_index sample_request)
      = [(''1'', InsightSrc sample_insight), (''2'', InsightSrc sample_insight),
         (''3'', InsightSrc sample_insight), (''4'', InsightSrc sample_insight),
         (''5'', InsightSrc sample_insight)]"
    by (simp add: index_docs_def search_world_def sample_request_def)
  from search_results_cut_off [OF run] obtain q res where
    s: "es_search search_env (rq_index sample_request)
          (index_docs search_world (rq_index sample_request)) q = Inr res"
    and i: "insights (search_results r)
          = filter (\<lambda>x. r_score x \<ge> 14) (map to_result (hits res))"
    and t: "total_records (search_results r) = total_hits res"
    by blast
  have res: "res = \<lparr>hits = map (\<lambda>k. \<lparr>hit_id = k, hit_score = sample_score k,
                 hit_source = InsightSrc sample_insight, hit_highlight = None\<rparr>)
                 [''1'', ''2'', ''3'', ''4'', ''5''], total_hits = 5\<rparr>"
    using s by (simp add: d search_env_def all_hits_def exclude_topic_vector_def)
  have ids: "map r_id (insights (search_results r)) = [''1'', ''2'', ''3'']"
    and scores: "map r_score (insights (search_results r)) = [20, 15, 14]"
    by (simp_all add: i res to_result_def sample_scores)
  have total: "total_records (search_results r) = 5"
    by (simp add: t res)
  show ?thesis
    by (rule exI [of _ r], rule exI [of _ w'])
      (rule conjI [OF run conjI [OF ids conjI [OF scores total]]])
qed

subsection \<open>A search without results\<close>

lemma first_search:
  assumes "es_search e = all_hits"
    and "extract_keywords e (rq_query sample_request) = Some ''blue cruise''"
    and "map_of (indices w) ''insights_dev'' = Some ds" and "ds \<noteq> []"
  shows "get_documents_from_search_insights e
      (w\<lparr>calls := calls w @ [LlmExtractKeywords (rq_query sample_request)]\<rparr>)
      (keywords_request e sample_request) =
     (Inr (Some \<lparr>results = map (\<lambda>(k, s). \<lparr>r_id = k, r_score = sample_score k,
                                            r_source = exclude_topic_vector s,
                                            r_highlight = None\<rparr>) ds,
                  total_search_count = int (length ds)\<rparr>),
      w\<lparr>calls := calls w
          @ [LlmExtractKeywords (rq_query sample_request),
             EsSearch ''insights_dev''
               (projr (get_es_query e (sample_request\<lparr>rq_query := ''blue cruise''\<rparr>)
                  (int (length ds))))]\<rparr>)"
proof -
  define rq1 where "rq1 = sample_request\<lparr>rq_query := ''blue cruise''\<rparr>"
  have k: "keywords_request e sample_request = rq1"
    by (simp add: keywords_request_def assms(2) rq1_def)
  have i1: "rq_index rq1 = ''insights_dev''" "rq_page_no rq1 = 1" "rq_page_size rq1 = 24"
    by (simp_all add: rq1_def sample_request_def)
  have m: "map_of (indices (w\<lparr>calls := calls w
      @ [LlmExtractKeywords (rq_query sample_request)]\<rparr>)) (rq_index rq1) = Some ds"
    by (simp add: i1 assms(3))
  have pos: "0 < int (length ds)"
    using assms(4) by simp
  have q: "(if startswith (rq_index rq1) ''ai_summary_cache''
          then Inr (get_ai_summary_cache_query e rq1)
          else get_es_query e rq1 (int (length ds)))
       = Inr (projr (get_es_query e rq1 (int (length ds))))"
    using get_es_query_ok [of rq1 "int (length ds)" e] pos
    by (simp add: i1 startswith_def)
  show ?thesis
    using all_hits_search [OF assms(1) m assms(4) q] by (simp add: k i1) (simp add: rq1_def)
qed

lemma sample_env_fields:
  "es_search search_env = all_hits"
  "extract_keywords search_env q = Some ''blue cruise''"
  "time_ms search_env = 1700"
  "summarize search_env q ds = Inr ''Blue cruise in short.''"
  by (simp_all add: search_env_def sample_env_def)

lemma sample_request_fields:
  "rq_query sample_request = ''what is blue #cruise''" "rq_page_no sample_request = 1"
  "rq_ai_summary_cache_id sample_request = None" "rq_cdsid sample_request = ''CAT3''"
  "rq_regions sample_request = Some []" "rq_index sample_request = ''insights_dev''"
  "rq_logged_in_user_name sample_request = ''Cat''"
  by (simp_all add: sample_request_def)







subsection \<open>A cache without a generic entry\<close>

lemma no_generic_candidate:
  assumes "check_index_exists w (rq_index rq)"
    and "get_documents_from_search_insights e w rq = (Inr (Some resp), w1)"
    and "total_search_count resp > 0"
    and "rq_regions rq = None \<or> rq_regions rq = Some []"
    and "filter (\<lambda>r. source_regions (r_source r) = Some []) (results resp) = []"
  shows "get_ai_summary_from_cache e w original_query rq found
     = (Inl (AppExceptionStr 500 IndexError), w1)"
proof -
  have "cache_lookup e w original_query rq found = (Inl IndexError, w1)"
    using assms(2) assms(3) assms(4) assms(5)
    by (auto simp: cache_lookup_def Let_def)
  then show ?thesis
    using assms(1) by (simp add: get_ai_summary_from_cache_def)
qed

lemma regional_cache_search:
  assumes "map_of (indices w) ''ai_summary_cache_dev''
      = Some [(''17'', CacheSrc (sample_doc\<lparr>doc_regions := Some [''EU''],
                                   topic_vector := Some [1, 0]\<rparr>))]"
    and "rq_index rq = ''ai_summary_cache_dev''"
    and "rq_regions rq = Some []"
  shows "get_ai_summary_from_cache search_env w original_query rq found
     = (Inl (AppExceptionStr 500 IndexError),
        w\<lparr>calls := calls w
           @ [EsSearch ''ai_summary_cache_dev'' (get_ai_summary_cache_query search_env rq)]\<rparr>)"
proof -
  define ds where "ds = [(''17'', CacheSrc (sample_doc\<lparr>doc_regions := Some [''EU''],
                                   topic_vector := Some [1, 0]\<rparr>))]"
  have m: "map_of (indices w) (rq_index rq) = Some ds"
    by (simp add: assms(1) assms(2) ds_def)
  have ne: "ds \<noteq> []"
    by (simp add: ds_def)
  have q: "(if startswith (rq_index rq) ''ai_summary_cache''
          then Inr (get_ai_summary_cache_query search_env rq)
          else get_es_query search_env rq (int (length ds)))
       = Inr (get_ai_summary_cache_query search_env rq)"
    by (simp add: assms(2) startswith_def)
  note g = all_hits_search [OF sample_env_fields(1) m ne q]
  have a1: "check_index_exists w (rq_index rq)"
    using m by (simp add: check_index_exists_def)
  have tot: "total_search_count
      \<lparr>results = map (\<lambda>(k, s). \<lparr>r_id = k, r_score = sample_score k,
                                 r_source = exclude_topic_vector s, r_highlight = None\<rparr>) ds,
       total_search_count = int (length ds)\<rparr> > 0"
    by (simp add: ds_def)
  have none: "filter (\<lambda>r. source_regions (r_source r) = Some [])
      (results \<lparr>results = map (\<lambda>(k, s). \<lparr>r_id = k, r_score = sample_score k,
                                 r_source = exclude_topic_vector s, r_highlight = None\<rparr>) ds,
       total_search_count = int (length ds)\<rparr>) = []"
    by (simp add: ds_def exclude_topic_vector_def source_regions_def)
  have rg: "rq_regions rq = None \<or> rq_regions rq = Some []"
    by (simp add: assms(3))
  show ?thesis
    using no_generic_candidate [OF a1 g tot rg none, of original_query found]
    by (simp add: assms(2))
qed

text \<open>C4. The cache of \<open>regional_world\<close> holds one summary, made for the region
  \<^verbatim>\<open>EU\<close>. A lookup for a request without regions and without a cache key finds it,
  drops it as not generic and then reads the first of no candidates: the lookup ends in
  the internal error 500 and so does the search, with no call of the summariser.\<close>

theorem cache_without_generic_entry_fails:
  "get_ai_summary_from_cache search_env regional_world ''what is blue #cruise''
       sample_cache_request []
     = (Inl (AppExceptionStr 500 IndexError),
        regional_world\<lparr>calls :=
          [EsSearch ''ai_summary_cache_dev''
             (get_ai_summary_cache_query search_env sample_cache_request)]\<rparr>)
   \<and> fst (search_insights_v2 search_env regional_world sample_request)
       = Inl (AppExceptionStr 500 IndexError)
   \<and> calls (snd (search_insights_v2 search_env regional_world sample_request))
       = [LlmExtractKeywords ''what is blue #cruise'',
          EsSearch ''insights_dev''
            (projr (get_es_query search_env (sample_request\<lparr>rq_query := ''blue cruise''\<rparr>) 5)),
          EsSearch ''ai_summary_cache_dev''
            (get_ai_summary_cache_query search_env
               (sample_request\<lparr>rq_query := ''blue cruise'',
                               rq_index := ''ai_summary_cache_dev''\<rparr>))]"
proof -
  have mc: "map_of (indices regional_world) ''ai_summary_cache_dev''
      = Some [(''17'', CacheSrc (sample_doc\<lparr>doc_regions := Some [''EU''],
                                   topic_vector := Some [1, 0]\<rparr>))]"
    and c: "calls regional_world = []"
    by (simp_all add: regional_world_def)
  have ci: "rq_index sample_cache_request = ''ai_summary_cache_dev''"
    "rq_regions sample_cache_request = Some []"
    by (simp_all add: sample_cache_request_def sample_request_def)
  have lookup: "get_ai_summary_from_cache search_env regional_world ''what is blue #cruise''
       sample_cache_request []
     = (Inl (AppExceptionStr 500 IndexError),
        regional_world\<lparr>calls :=
          [EsSearch ''ai_summary_cache_dev''
             (get_ai_summary_cache_query search_env sample_cache_request)]\<rparr>)"
    using regional_cache_search [OF mc ci(1) ci(2), of "''what is blue #cruise''" "[]"]
    by (simp add: c)
  define ds where "ds = [(''1'', InsightSrc sample_insight), (''2'', InsightSrc sample_insight),
                     (''3'', InsightSrc sample_insight), (''4'', InsightSrc sample_insight),
                     (''5'', InsightSrc sample_insight)]"
  have m: "map_of (indices regional_world) ''insights_dev'' = Some ds"
    by (simp add: regional_world_def ds_def)
  have ne: "ds \<noteq> []" and len: "int (length ds) = 5"
    by (simp_all add: ds_def)
  define resp where "resp = \<lparr>results = map (\<lambda>(k, s). \<lparr>r_id = k, r_score = sample_score k,
                                            r_source = exclude_topic_vector s,
                                            r_highlight = None\<rparr>) ds,
                  total_search_count = int (length ds)\<rparr>"
  define w1 where "w1 = regional_world\<lparr>calls := calls regional_world
          @ [LlmExtractKeywords (rq_query sample_request),
             EsSearch ''insights_dev''
               (projr (get_es_query search_env (sample_request\<lparr>rq_query := ''blue cruise''\<rparr>)
                  (int (length ds))))]\<rparr>"
  have g: "get_documents_from_search_insights search_env
      (regional_world\<lparr>calls := calls regional_world
         @ [LlmExtractKeywords (rq_query sample_request)]\<rparr>)
      (keywords_request search_env sample_request) = (Inr (Some resp), w1)"
    using first_search [OF sample_env_fields(1) sample_env_fields(2) m ne]
    by (simp only: resp_def w1_def)
  have tot: "total_search_count resp > 0"
    by (simp add: resp_def len)
  have fk: "falsy (rq_ai_summary_cache_id sample_request)"
    by (simp add: sample_request_fields falsy_def)
  note first = search_insights_v2_first_page [OF g tot sample_request_fields(2) fk]
  define rq2 where "rq2 = (keywords_request search_env sample_request)
      \<lparr>rq_index := summary_cache_index search_env\<rparr>"
  have rq2: "rq2 = sample_request\<lparr>rq_query := ''blue cruise'',
                               rq_index := ''ai_summary_cache_dev''\<rparr>"
    by (simp add: rq2_def sample_keywords sample_cache_index)
  have i2: "rq_index rq2 = ''ai_summary_cache_dev''" "rq_regions rq2 = Some []"
    by (simp_all add: rq2 sample_request_def)
  have m2: "map_of (indices w1) ''ai_summary_cache_dev''
      = Some [(''17'', CacheSrc (sample_doc\<lparr>doc_regions := Some [''EU''],
                                   topic_vector := Some [1, 0]\<rparr>))]"
    by (simp add: w1_def mc)
  note fail = regional_cache_search [OF m2 i2(1) i2(2), of "rq_query sample_request"
      "filter (\<lambda>r. r_score r \<ge> 14) (results resp)"]
  have run: "search_insights_v2 search_env regional_world sample_request
      = (Inl (AppExceptionStr 500 IndexError),
         w1\<lparr>calls := calls w1
            @ [EsSearch ''ai_summary_cache_dev''
                 (get_ai_summary_cache_query search_env rq2)]\<rparr>)"
    using first fail by (simp add: rq2_def [symmetric])
  have r1: "fst (search_insights_v2 search_env regional_world sample_request)
       = Inl (AppExceptionStr 500 IndexError)"
    by (simp add: run)
  have r2: "calls (snd (search_insights_v2 search_env regional_world sample_request))
       = [LlmExtractKeywords ''what is blue #cruise'',
          EsSearch ''insights_dev''
            (projr (get_es_query search_env (sample_request\<lparr>rq_query := ''blue cruise''\<rparr>) 5)),
          EsSearch ''ai_summary_cache_dev''
            (get_ai_summary_cache_query search_env
               (sample_request\<lparr>rq_query := ''blue cruise'',
                               rq_index := ''ai_summary_cache_dev''\<rparr>))]"
    by (simp add: run w1_def c len sample_request_fields rq2)
  show ?thesis
    by (rule conjI [OF lookup conjI [OF r1 r2]])
qed

end
